theory Spec2Isabelle
  imports Complex_Main "HOL-Library.Word" "HOL-Library.AList" "HOL-Library.Log_Nat"
begin

section \<open>Data model (ab-testing.config.ts)\<close>

text \<open>
  A JavaScript string is a sequence of UTF-16 code units, which is what
  \<^verbatim>\<open>charCodeAt\<close> reads. String literals of the source are written \<open>str ''...''\<close>.
\<close>

type_synonym jsstring = "16 word list"

definition str :: "string \<Rightarrow> jsstring" where
  "str s = map (\<lambda>c. of_nat (of_char c)) s"

text \<open>
  \<^verbatim>\<open>interface ABVariant { id; name; weight; config }\<close> and
  \<^verbatim>\<open>interface ABTest { testId; name; description; enabled; variants; defaultVariant }\<close>.
  The fields \<^verbatim>\<open>id\<close> and \<^verbatim>\<open>name\<close> are \<open>vid\<close>, \<open>vname\<close> and \<open>tname\<close> here.
  A \<^verbatim>\<open>number\<close> is the real value of a finite double; \<^verbatim>\<open>NaN\<close> and the infinities are
  not represented.
  The \<^verbatim>\<open>config\<close> payload is opaque to the engine (type \<open>'c\<close>); the optional
  \<^verbatim>\<open>startDate\<close> and \<^verbatim>\<open>endDate\<close> are read nowhere and left out.
\<close>

record 'c ABVariant =
  vid :: jsstring
  vname :: jsstring
  weight :: real
  config :: 'c

record 'c ABTest =
  testId :: jsstring
  tname :: jsstring
  description :: jsstring
  enabled :: bool
  variants :: "'c ABVariant list"
  defaultVariant :: jsstring

text \<open>\<^verbatim>\<open>abTestConfig\<close>; its \<^verbatim>\<open>enabled\<close> flag is \<open>globalEnabled\<close>.\<close>

record ABConfig =
  globalEnabled :: bool
  cookieName :: jsstring
  cookieExpireDays :: int
  analyticsEnabled :: bool
  debugMode :: bool

datatype ABAnalyticsEventType =
  VARIANT_ASSIGNED | VARIANT_VIEWED | VARIANT_CONVERSION | VARIANT_INTERACTION

text \<open>The shipped registry. Each \<^verbatim>\<open>config\<close> object is named by a constructor.\<close>

datatype section_config =
  HeroOriginal | HeroProtectiveFocus
  | MissionCurrent | MissionAspirational
  | CtaMissionFocus | CtaTechFocus | CtaCommunityFocus

definition heroABTest :: "section_config ABTest" where
  "heroABTest = \<lparr>
     testId = str ''hero-messaging-test'',
     tname = str ''Hero Section Messaging Test'',
     description = str ''Testing different hero messaging approaches for conversion optimization'',
     enabled = True,
     variants = [
       \<lparr>vid = str ''original'', vname = str ''Original - Guardian Focus'',
        weight = 50, config = HeroOriginal\<rparr>,
       \<lparr>vid = str ''protective-focus'', vname = str ''Alternative - Protection Focus'',
        weight = 50, config = HeroProtectiveFocus\<rparr>],
     defaultVariant = str ''original''\<rparr>"

definition missionABTest :: "section_config ABTest" where
  "missionABTest = \<lparr>
     testId = str ''mission-approach-test'',
     tname = str ''Mission Section Approach Test'',
     description = str ''Testing different mission messaging approaches'',
     enabled = True,
     variants = [
       \<lparr>vid = str ''current'', vname = str ''Current - Statistics Focus'',
        weight = 60, config = MissionCurrent\<rparr>,
       \<lparr>vid = str ''aspirational'', vname = str ''Alternative - Aspirational Focus'',
        weight = 40, config = MissionAspirational\<rparr>],
     defaultVariant = str ''current''\<rparr>"

definition ctaABTest :: "section_config ABTest" where
  "ctaABTest = \<lparr>
     testId = str ''cta-messaging-test'',
     tname = str ''Call-to-Action Messaging Test'',
     description = str ''Testing different CTA button text and messaging for conversion'',
     enabled = True,
     variants = [
       \<lparr>vid = str ''mission-focus'', vname = str ''Mission Focus'',
        weight = 33, config = CtaMissionFocus\<rparr>,
       \<lparr>vid = str ''tech-focus'', vname = str ''Technology Focus'',
        weight = 33, config = CtaTechFocus\<rparr>,
       \<lparr>vid = str ''community-focus'', vname = str ''Community Focus'',
        weight = 34, config = CtaCommunityFocus\<rparr>],
     defaultVariant = str ''mission-focus''\<rparr>"

text \<open>\<^verbatim>\<open>Object.values(abTestRegistry)\<close>, in the order the keys are declared.\<close>

definition abTestRegistry :: "section_config ABTest list" where
  "abTestRegistry = [heroABTest, missionABTest, ctaABTest]"

definition abTestConfig :: ABConfig where
  "abTestConfig = \<lparr>
     globalEnabled = True,
     cookieName = str ''warden_ab_variants'',
     cookieExpireDays = 30,
     analyticsEnabled = True,
     debugMode = False\<rparr>"

section \<open>Numbers and values\<close>

text \<open>
  The arithmetic of \<^verbatim>\<open>number\<close> is IEEE 754 binary64 with round to nearest, ties to even:
  \<open>fl64 x\<close> is the double that the exact result \<open>x\<close> of an operation is rounded to.
  \<open>binaryExponent x\<close> is the integer \<open>e\<close> with \<open>2 ^ e \<le> x < 2 ^ (e + 1)\<close> for positive \<open>x\<close>;
  below \<open>2 ^ - 1022\<close> the spacing is that of the subnormal numbers. A result beyond the largest
  double, which the source would hold as \<^verbatim>\<open>Infinity\<close>, stays a finite number here.
\<close>

definition roundHalfEven :: "real \<Rightarrow> int" where
  "roundHalfEven x =
     (if x - of_int \<lfloor>x\<rfloor> < 1/2 then \<lfloor>x\<rfloor>
      else if 1/2 < x - of_int \<lfloor>x\<rfloor> then \<lfloor>x\<rfloor> + 1
      else if even \<lfloor>x\<rfloor> then \<lfloor>x\<rfloor> else \<lfloor>x\<rfloor> + 1)"

definition binaryExponent :: "real \<Rightarrow> int" where
  "binaryExponent x = (if 1 \<le> x then bitlen \<lfloor>x\<rfloor> - 1 else - bitlen (\<lceil>1 / x\<rceil> - 1))"

definition fl64 :: "real \<Rightarrow> real" where
  "fl64 x =
     (if x = 0 then 0
      else of_int (roundHalfEven (x / 2 powi (max (binaryExponent \<bar>x\<bar>) (- 1022) - 52)))
             * 2 powi (max (binaryExponent \<bar>x\<bar>) (- 1022) - 52))"

text \<open>
  The values that reach the module from outside: what \<^verbatim>\<open>JSON.parse\<close> builds, \<^verbatim>\<open>undefined\<close>,
  and \<open>Native k\<close>, the built-in object that the property \<open>k\<close> of \<^verbatim>\<open>Object.prototype\<close> holds
  (a function, or the prototype itself for \<^verbatim>\<open>__proto__\<close>). An object lists its own properties
  in insertion order.
\<close>

datatype json =
  JNull | JBool bool | JNum real | JStr jsstring | JArr "json list"
  | JObj "(jsstring \<times> json) list"

datatype jsvalue = Undefined | Value json | Native jsstring

abbreviation null :: jsvalue where
  "null \<equiv> Value JNull"

abbreviation jsString :: "jsstring \<Rightarrow> jsvalue" where
  "jsString s \<equiv> Value (JStr s)"

text \<open>Truthiness, as \<^verbatim>\<open>if (x)\<close>, \<^verbatim>\<open>x && y\<close> and \<^verbatim>\<open>x || y\<close> test it.\<close>

fun truthy :: "jsvalue \<Rightarrow> bool" where
  "truthy Undefined = False"
| "truthy (Value JNull) = False"
| "truthy (Value (JBool b)) = b"
| "truthy (Value (JNum n)) = (n \<noteq> 0)"
| "truthy (Value (JStr s)) = (s \<noteq> [])"
| "truthy (Value (JArr xs)) = True"
| "truthy (Value (JObj m)) = True"
| "truthy (Native k) = True"

type_synonym jsobject = "(jsstring \<times> jsvalue) list"

section \<open>Variant selection (ab-testing.utils.ts)\<close>

text \<open>
  The functions of the source read the module constants \<^verbatim>\<open>abTestRegistry\<close> and
  \<^verbatim>\<open>abTestConfig\<close>; here they take them as the arguments \<open>reg\<close> and \<open>cfg\<close>, so that
  a disabled configuration and other registries can be stated.
\<close>

definition getTestByIdFromRegistry :: "'c ABTest list \<Rightarrow> jsstring \<Rightarrow> 'c ABTest option" where
  "getTestByIdFromRegistry reg tid = List.find (\<lambda>test. testId test = tid) reg"

text \<open>
  \<^verbatim>\<open>v.id === variantId\<close>: the argument is a string where the types of the source hold, and
  whatever \<^verbatim>\<open>getStoredVariant\<close> returned where they do not; only a string equals an id.
\<close>

definition getVariantById :: "'c ABTest \<Rightarrow> jsvalue \<Rightarrow> 'c ABVariant option" where
  "getVariantById test variantId =
     List.find (\<lambda>v. jsString (vid v) = variantId) (variants test)"

fun getDefaultVariant :: "'c ABTest option \<Rightarrow> 'c ABVariant option" where
  "getDefaultVariant None = None"
| "getDefaultVariant (Some test) = getVariantById test (jsString (defaultVariant test))"

definition isValidVariant :: "'c ABTest \<Rightarrow> jsvalue \<Rightarrow> bool" where
  "isValidVariant test variantId =
     list_ex (\<lambda>v. jsString (vid v) = variantId) (variants test)"

text \<open>
  \<^verbatim>\<open>hashStringToNumber\<close>. After every round \<^verbatim>\<open>hash & hash\<close> makes the hash a signed
  32-bit integer, and \<^verbatim>\<open>hash << 5\<close> is a 32-bit shift, so the loop is arithmetic modulo
  \<open>2 ^ 32\<close>: a \<open>32 word\<close>, read as a signed value by \<open>sint\<close>. \<^verbatim>\<open>Math.abs\<close> and the
  division are on numbers, outside the 32 bits; both are exact.
\<close>

fun hashLoop :: "32 word \<Rightarrow> jsstring \<Rightarrow> 32 word" where
  "hashLoop hash [] = hash"
| "hashLoop hash (char # rest) = hashLoop ((push_bit 5 hash - hash) + ucast char) rest"

definition hashStringToNumber :: "jsstring \<Rightarrow> real" where
  "hashStringToNumber s = real_of_int \<bar>sint (hashLoop 0 s)\<bar> / 2 ^ 31"

text \<open>
  \<^verbatim>\<open>userId ? hashStringToNumber(userId + test.testId) : Math.random()\<close>. The value that
  \<^verbatim>\<open>Math.random()\<close> would return, a number in \<open>[0, 1)\<close>, is the argument \<open>mathRandom\<close>.
\<close>

definition selectionScalar :: "'c ABTest \<Rightarrow> jsstring option \<Rightarrow> real \<Rightarrow> real" where
  "selectionScalar test userId mathRandom =
     (case userId of
        None \<Rightarrow> mathRandom
      | Some u \<Rightarrow> if u \<noteq> [] then hashStringToNumber (u @ testId test) else mathRandom)"

text \<open>
  The \<^verbatim>\<open>for\<close> loop of \<^verbatim>\<open>assignVariantByWeight\<close>, \<open>None\<close> when it ends without returning;
  \<^verbatim>\<open>cumulativeWeight += variant.weight\<close> is a rounded addition.
\<close>

fun weightLoop :: "real \<Rightarrow> real \<Rightarrow> 'c ABVariant list \<Rightarrow> 'c ABVariant option" where
  "weightLoop randomPercent cumulativeWeight [] = None"
| "weightLoop randomPercent cumulativeWeight (variant # rest) =
     (if randomPercent \<le> fl64 (cumulativeWeight + weight variant) then Some variant
      else weightLoop randomPercent (fl64 (cumulativeWeight + weight variant)) rest)"

text \<open>\<^verbatim>\<open>randomPercent = random * 100\<close> is a rounded product.\<close>

definition assignVariantByWeight :: "'c ABTest \<Rightarrow> jsstring option \<Rightarrow> real \<Rightarrow> 'c ABVariant option" where
  "assignVariantByWeight test userId mathRandom =
     (case filter (\<lambda>v. weight v > 0) (variants test) of
        [] \<Rightarrow> getDefaultVariant (Some test)
      | first # others \<Rightarrow>
          (case weightLoop (fl64 (selectionScalar test userId mathRandom * 100)) 0
                  (first # others) of
             Some variant \<Rightarrow> Some variant
           | None \<Rightarrow> Some first))"

section \<open>The browser environment\<close>

text \<open>
  The state the module reads and writes. \<open>window\<close> is \<open>None\<close> where \<^verbatim>\<open>typeof window\<close> is
  \<^verbatim>\<open>'undefined'\<close>; a window has its \<^verbatim>\<open>localStorage\<close> and its \<^verbatim>\<open>va\<close>. A storage is
  \<open>StorageDenied\<close> when every access to it throws, and otherwise holds its entries and
  whether it is full, in which case \<^verbatim>\<open>setItem\<close> throws. \<^verbatim>\<open>window.va\<close> is undefined
  (\<open>NoSink\<close>), a function that takes the call (\<open>Sink\<close>), or one that throws
  (\<open>ThrowingSink\<close>). \<open>document\<close> is \<open>None\<close> where \<^verbatim>\<open>typeof document\<close> is \<^verbatim>\<open>'undefined'\<close>, and
  otherwise the cookies by name. \<open>tracked\<close> lists the calls that \<^verbatim>\<open>window.va\<close> took, a call
  \<^verbatim>\<open>window.va('track', type, data)\<close> as \<open>(type, data)\<close>. Console output is not part of the
  state.

  The text of a cookie is represented by what \<^verbatim>\<open>JSON.parse\<close> makes of it: \<open>Garbled\<close> text is
  not JSON, \<open>Encoded j\<close> is the text \<^verbatim>\<open>JSON.stringify\<close> writes for \<open>j\<close>. The values considered
  are \<^verbatim>\<open>null\<close> and an object, which is what \<^verbatim>\<open>storeVariant\<close> writes; a cookie that holds
  another JSON value (a number, a string, an array) is outside the model, and so is a cookie
  with empty text, which reads as no cookie (\<^verbatim>\<open>|| null\<close> in \<^verbatim>\<open>getCookie\<close>). A document has
  one cookie of a name. What it keeps of an assignment to \<^verbatim>\<open>document.cookie\<close> is the
  browser's doing and a part of the document: \<open>assign d name value days jar\<close> are the cookies
  after the assignment of \<^verbatim>\<open>name=value\<close> expiring in \<open>days\<close> days to a document with the cookies
  \<open>jar\<close>.
\<close>

datatype exn = SecurityError | QuotaExceededError | SyntaxError | TypeError | SinkError

datatype parsed = ParsedNull | ParsedObject "(jsstring \<times> json) list"

datatype cookie_text = Garbled | Encoded parsed

datatype storage = StorageDenied | Storage "jsstring \<rightharpoonup> jsstring" bool

datatype sink = NoSink | Sink | ThrowingSink

record browser_window =
  localStorage :: storage
  va :: sink

type_synonym cookie_jar = "jsstring \<rightharpoonup> cookie_text"

record browser_document =
  cookies :: cookie_jar
  assign :: "jsstring \<Rightarrow> cookie_text \<Rightarrow> int \<Rightarrow> cookie_jar \<Rightarrow> cookie_jar"

record env =
  window :: "browser_window option"
  document :: "browser_document option"
  tracked :: "(ABAnalyticsEventType \<times> jsobject) list"

text \<open>\<^verbatim>\<open>localStorage.getItem(k)\<close> returns a string or \<^verbatim>\<open>null\<close>.\<close>

definition getItem :: "browser_window \<Rightarrow> jsstring \<Rightarrow> exn + jsvalue" where
  "getItem w k =
     (case localStorage w of
        StorageDenied \<Rightarrow> Inl SecurityError
      | Storage entries full \<Rightarrow>
          Inr (case entries k of None \<Rightarrow> null | Some s \<Rightarrow> jsString s))"

definition setItem :: "browser_window \<Rightarrow> jsstring \<Rightarrow> jsstring \<Rightarrow> exn + browser_window" where
  "setItem w k v =
     (case localStorage w of
        StorageDenied \<Rightarrow> Inl SecurityError
      | Storage entries full \<Rightarrow>
          if full then Inl QuotaExceededError
          else Inr (w\<lparr>localStorage := Storage (entries(k \<mapsto> v)) full\<rparr>))"

definition JSON_parse :: "cookie_text \<Rightarrow> exn + parsed" where
  "JSON_parse c = (case c of Garbled \<Rightarrow> Inl SyntaxError | Encoded j \<Rightarrow> Inr j)"

definition JSON_stringify :: "parsed \<Rightarrow> cookie_text" where
  "JSON_stringify j = Encoded j"

text \<open>
  The properties every object inherits from \<^verbatim>\<open>Object.prototype\<close>. \<^verbatim>\<open>variants[testId]\<close> is the
  own property of that name, else the inherited one, else \<^verbatim>\<open>undefined\<close>; on \<^verbatim>\<open>null\<close> it
  throws.
\<close>

definition objectPrototypeNames :: "jsstring list" where
  "objectPrototypeNames = map str
     [''constructor'', ''__proto__'', ''hasOwnProperty'', ''isPrototypeOf'',
      ''propertyIsEnumerable'', ''toLocaleString'', ''toString'', ''valueOf'',
      ''__defineGetter__'', ''__defineSetter__'', ''__lookupGetter__'', ''__lookupSetter__'']"

definition getProperty :: "parsed \<Rightarrow> jsstring \<Rightarrow> exn + jsvalue" where
  "getProperty j k =
     (case j of
        ParsedNull \<Rightarrow> Inl TypeError
      | ParsedObject m \<Rightarrow>
          Inr (case map_of m k of
                 Some v \<Rightarrow> Value v
               | None \<Rightarrow> if k \<in> set objectPrototypeNames then Native k else Undefined))"

text \<open>
  \<^verbatim>\<open>variants[testId] = variantId\<close> sets the own property, creating it when there is none.
  The name \<^verbatim>\<open>__proto__\<close> that is not an own property reaches the setter of
  \<^verbatim>\<open>Object.prototype\<close>, which ignores a string.
\<close>

definition setProperty :: "parsed \<Rightarrow> jsstring \<Rightarrow> jsstring \<Rightarrow> exn + parsed" where
  "setProperty j k v =
     (case j of
        ParsedNull \<Rightarrow> Inl TypeError
      | ParsedObject m \<Rightarrow>
          Inr (ParsedObject
                (if k = str ''__proto__'' \<and> map_of m k = None then m
                 else AList.update k (JStr v) m)))"

section \<open>Cookie utilities\<close>

text \<open>
  \<^verbatim>\<open>getCookie\<close> finds the cookie of the given name in \<^verbatim>\<open>document.cookie\<close>; \<^verbatim>\<open>setCookie\<close>
  assigns \<^verbatim>\<open>name=value;expires=...;path=/\<close> to it.
\<close>

definition getCookie :: "env \<Rightarrow> jsstring \<Rightarrow> cookie_text option" where
  "getCookie e cname = (case document e of None \<Rightarrow> None | Some d \<Rightarrow> cookies d cname)"

definition setCookie :: "env \<Rightarrow> jsstring \<Rightarrow> cookie_text \<Rightarrow> int \<Rightarrow> env" where
  "setCookie e cname v days =
     (case document e of
        None \<Rightarrow> e
      | Some d \<Rightarrow> e\<lparr>document := Some (d\<lparr>cookies := assign d cname v days (cookies d)\<rparr>)\<rparr>)"

text \<open>
  What a browser keeps where it stores the name and the value as they are: it ends the
  value at its first \<^verbatim>\<open>;\<close>, which leaves a JSON text that has one (inside a string, where
  alone \<^verbatim>\<open>JSON.stringify\<close> writes one) unterminated, and it removes a cookie that expires at
  once (no positive number of days) instead of keeping it. The later expiry of a cookie is
  not modelled.
\<close>

fun jsonHasSemicolon :: "json \<Rightarrow> bool" where
  "jsonHasSemicolon JNull = False"
| "jsonHasSemicolon (JBool b) = False"
| "jsonHasSemicolon (JNum n) = False"
| "jsonHasSemicolon (JStr s) = (59 \<in> set s)"
| "jsonHasSemicolon (JArr xs) = list_ex jsonHasSemicolon xs"
| "jsonHasSemicolon (JObj m) = list_ex (\<lambda>p. 59 \<in> set (fst p) \<or> jsonHasSemicolon (snd p)) m"

fun textHasSemicolon :: "cookie_text \<Rightarrow> bool" where
  "textHasSemicolon Garbled = False"
| "textHasSemicolon (Encoded ParsedNull) = False"
| "textHasSemicolon (Encoded (ParsedObject m)) = jsonHasSemicolon (JObj m)"

definition keepCookie :: "jsstring \<Rightarrow> cookie_text \<Rightarrow> int \<Rightarrow> cookie_jar \<Rightarrow> cookie_jar" where
  "keepCookie cname v days jar =
     (if days \<le> 0 then jar(cname := None)
      else jar(cname \<mapsto> (if textHasSemicolon v then Garbled else v)))"

section \<open>Storage utilities\<close>

text \<open>
  Both functions return \<open>Inl\<close> for an exception that leaves them and \<open>Inr\<close> for a normal
  return. Each \<open>Inl ex \<Rightarrow>\<close> branch below is the \<^verbatim>\<open>catch (e)\<close> block that the \<^verbatim>\<open>try\<close>
  around the throwing call runs.
\<close>

definition storageKey :: "jsstring \<Rightarrow> jsstring" where
  "storageKey tid = str ''ab_'' @ tid"

definition getStoredVariant :: "ABConfig \<Rightarrow> jsstring \<Rightarrow> env \<Rightarrow> exn + jsvalue" where
  "getStoredVariant cfg tid e =
     (case window e of
        None \<Rightarrow> Inr null
      | Some w \<Rightarrow>
          (case getItem w (storageKey tid) of
             Inl ex \<Rightarrow> Inr null
           | Inr stored \<Rightarrow>
               if truthy stored then Inr stored
               else (case getCookie e (cookieName cfg) of
                   None \<Rightarrow> Inr null
                 | Some cookieValue \<Rightarrow>
                     (case JSON_parse cookieValue of
                        Inl ex \<Rightarrow> Inr null
                      | Inr vs \<Rightarrow>
                          (case getProperty vs tid of
                             Inl ex \<Rightarrow> Inr null
                           | Inr v \<Rightarrow> Inr (if truthy v then v else null))))))"

definition storeVariant :: "ABConfig \<Rightarrow> jsstring \<Rightarrow> jsstring \<Rightarrow> env \<Rightarrow> exn + env" where
  "storeVariant cfg tid variantId e =
     (case window e of
        None \<Rightarrow> Inr e
      | Some w \<Rightarrow>
          (case setItem w (storageKey tid) variantId of
             Inl ex \<Rightarrow> Inr e
           | Inr w1 \<Rightarrow>
               (case setProperty
                       (case getCookie (e\<lparr>window := Some w1\<rparr>) (cookieName cfg) of
                          None \<Rightarrow> ParsedObject []
                        | Some cookieValue \<Rightarrow>
                            (case JSON_parse cookieValue of
                               Inl ex \<Rightarrow> ParsedObject []
                             | Inr vs \<Rightarrow> vs))
                       tid variantId of
                  Inl ex \<Rightarrow> Inr (e\<lparr>window := Some w1\<rparr>)
                | Inr vs \<Rightarrow>
                    Inr (setCookie (e\<lparr>window := Some w1\<rparr>) (cookieName cfg)
                           (JSON_stringify vs) (cookieExpireDays cfg)))))"

section \<open>Analytics utilities\<close>

text \<open>An object literal \<^verbatim>\<open>{ props, ...metadata }\<close>: later properties overwrite.\<close>

definition spread :: "jsobject \<Rightarrow> jsobject option \<Rightarrow> jsobject" where
  "spread props metadata =
     (case metadata of
        None \<Rightarrow> props
      | Some m \<Rightarrow> fold (\<lambda>(k, v) acc. AList.update k v acc) m props)"

text \<open>
  The call of \<^verbatim>\<open>window.va\<close> stands outside any \<^verbatim>\<open>try\<close>: what the sink throws leaves
  \<^verbatim>\<open>trackAnalyticsEvent\<close> and its callers.
\<close>

definition trackAnalyticsEvent ::
  "ABConfig \<Rightarrow> ABAnalyticsEventType \<Rightarrow> jsstring \<Rightarrow> jsvalue \<Rightarrow> jsobject option \<Rightarrow> env
     \<Rightarrow> exn + env" where
  "trackAnalyticsEvent cfg type tid variantId metadata e =
     (if \<not> analyticsEnabled cfg then Inr e
      else (case window e of
          None \<Rightarrow> Inr e
        | Some w \<Rightarrow>
            (case va w of
               NoSink \<Rightarrow> Inr e
             | Sink \<Rightarrow>
                 Inr (e\<lparr>tracked := tracked e @
                   [(type, spread [(str ''test_id'', jsString tid),
                                   (str ''variant_id'', variantId)] metadata)]\<rparr>)
             | ThrowingSink \<Rightarrow> Inl SinkError)))"

text \<open>\<^verbatim>\<open>conversionType\<close> defaults to \<^verbatim>\<open>'default'\<close> when it is not given.\<close>

definition trackConversion ::
  "ABConfig \<Rightarrow> jsstring \<Rightarrow> jsstring option \<Rightarrow> jsobject option \<Rightarrow> env \<Rightarrow> exn + env" where
  "trackConversion cfg tid conversionType metadata e =
     (case getStoredVariant cfg tid e of
        Inl ex \<Rightarrow> Inl ex
      | Inr variant \<Rightarrow>
          if truthy variant then
            trackAnalyticsEvent cfg VARIANT_CONVERSION tid variant
              (Some (spread [(str ''conversion_type'',
                  jsString (case conversionType of None \<Rightarrow> str ''default'' | Some c \<Rightarrow> c))]
                metadata)) e
          else Inr e)"

definition trackInteraction ::
  "ABConfig \<Rightarrow> jsstring \<Rightarrow> jsstring \<Rightarrow> jsobject option \<Rightarrow> env \<Rightarrow> exn + env" where
  "trackInteraction cfg tid interactionType metadata e =
     (case getStoredVariant cfg tid e of
        Inl ex \<Rightarrow> Inl ex
      | Inr variant \<Rightarrow>
          if truthy variant then
            trackAnalyticsEvent cfg VARIANT_INTERACTION tid variant
              (Some (spread [(str ''interaction_type'', jsString interactionType)] metadata)) e
          else Inr e)"

section \<open>getVariant\<close>

text \<open>
  The result is the returned variant (\<open>None\<close> for \<^verbatim>\<open>null\<close>) with the environment the call
  leaves, or \<open>Inl\<close> for an exception that reaches the caller.
\<close>

definition getVariant ::
  "'c ABTest list \<Rightarrow> ABConfig \<Rightarrow> jsstring \<Rightarrow> jsstring option \<Rightarrow> real \<Rightarrow> env
     \<Rightarrow> exn + ('c ABVariant option \<times> env)" where
  "getVariant reg cfg tid userId mathRandom e =
     (case getTestByIdFromRegistry reg tid of
        None \<Rightarrow> Inr (getDefaultVariant None, e)
      | Some test \<Rightarrow>
          if \<not> enabled test \<or> \<not> globalEnabled cfg then Inr (getDefaultVariant (Some test), e)
          else (case getStoredVariant cfg tid e of
              Inl ex \<Rightarrow> Inl ex
            | Inr storedVariant \<Rightarrow>
                if truthy storedVariant \<and> isValidVariant test storedVariant then
                  (case trackAnalyticsEvent cfg VARIANT_VIEWED tid storedVariant None e of
                     Inl ex \<Rightarrow> Inl ex
                   | Inr e1 \<Rightarrow> Inr (getVariantById test storedVariant, e1))
                else (case assignVariantByWeight test userId mathRandom of
                    Some selectedVariant \<Rightarrow>
                      (case storeVariant cfg tid (vid selectedVariant) e of
                         Inl ex \<Rightarrow> Inl ex
                       | Inr e1 \<Rightarrow>
                           (case trackAnalyticsEvent cfg VARIANT_ASSIGNED tid
                                   (jsString (vid selectedVariant)) None e1 of
                              Inl ex \<Rightarrow> Inl ex
                            | Inr e2 \<Rightarrow> Inr (Some selectedVariant, e2)))
                  | None \<Rightarrow> Inr (getDefaultVariant (Some test), e))))"

section \<open>The selection rule in the words of the specification\<close>

text \<open>
  The weight accumulated, in the arithmetic of numbers, after the variant at position \<open>i\<close>,
  and the first variant of a list whose accumulated weight meets or exceeds \<open>x\<close>.
\<close>

definition cumulativeWeightAt :: "'c ABVariant list \<Rightarrow> nat \<Rightarrow> real" where
  "cumulativeWeightAt vs i = foldl (\<lambda>acc v. fl64 (acc + weight v)) 0 (take (Suc i) vs)"

definition firstReaching :: "real \<Rightarrow> 'c ABVariant list \<Rightarrow> 'c ABVariant option" where
  "firstReaching x vs =
     map_option (\<lambda>i. vs ! i) (List.find (\<lambda>i. x \<le> cumulativeWeightAt vs i) [0..<length vs])"

text \<open>
  Filter the variants to weight \<open>> 0\<close>; if none qualifies, the default variant: the variant
  whose id is the test's \<^verbatim>\<open>defaultVariant\<close>. Otherwise scale the scalar by 100 and take the
  first qualifying variant, in declaration order, whose cumulative weight meets or exceeds
  it; if the weights never reach it, the first qualifying variant.
\<close>

definition weightedSelection :: "'c ABTest \<Rightarrow> real \<Rightarrow> 'c ABVariant option" where
  "weightedSelection test scalar =
     (let qualifying = filter (\<lambda>v. weight v > 0) (variants test) in
      if qualifying = [] then List.find (\<lambda>v. vid v = defaultVariant test) (variants test)
      else (case firstReaching (fl64 (scalar * 100)) qualifying of
              Some v \<Rightarrow> Some v
            | None \<Rightarrow> Some (hd qualifying)))"

section \<open>States of the stores and of the sink\<close>

text \<open>
  What the primary store holds under a key: an entry of a \<^verbatim>\<open>localStorage\<close> that exists and
  can be read.
\<close>

definition primaryEntry :: "env \<Rightarrow> jsstring \<Rightarrow> jsstring option" where
  "primaryEntry e k =
     (case window e of
        None \<Rightarrow> None
      | Some w \<Rightarrow>
          (case localStorage w of StorageDenied \<Rightarrow> None | Storage entries full \<Rightarrow> entries k))"

text \<open>The analytics sink returns: there is no \<^verbatim>\<open>window.va\<close> that throws.\<close>

definition sinkReturns :: "env \<Rightarrow> bool" where
  "sinkReturns e = (case window e of None \<Rightarrow> True | Some w \<Rightarrow> va w \<noteq> ThrowingSink)"

text \<open>
  A well-formed test: exactly one variant has the default id, the ids are distinct, every
  weight lies between 0 and 100 and the weights sum to 100.
\<close>

definition wellFormedTest :: "'c ABTest \<Rightarrow> bool" where
  "wellFormedTest test =
     (length (filter (\<lambda>v. vid v = defaultVariant test) (variants test)) = 1
      \<and> distinct (map vid (variants test))
      \<and> list_all (\<lambda>v. 0 \<le> weight v \<and> weight v \<le> 100) (variants test)
      \<and> sum_list (map weight (variants test)) = 100)"

text \<open>The properties of an optional metadata object; of two entries for one key the later counts.\<close>

definition metadataMap :: "jsobject option \<Rightarrow> (jsstring \<rightharpoonup> jsvalue)" where
  "metadataMap metadata = (case metadata of None \<Rightarrow> Map.empty | Some m \<Rightarrow> map_of (rev m))"

section \<open>Example tests and environments\<close>

text \<open>The test of the specification's scenario: \<open>A\<close> weight 60, \<open>B\<close> weight 40, default \<open>A\<close>.\<close>

definition variantA :: "unit ABVariant" where
  "variantA = \<lparr>vid = str ''A'', vname = str ''A'', weight = 60, config = ()\<rparr>"

definition variantB :: "unit ABVariant" where
  "variantB = \<lparr>vid = str ''B'', vname = str ''B'', weight = 40, config = ()\<rparr>"

definition scenarioTest :: "unit ABTest" where
  "scenarioTest = \<lparr>testId = str ''t'', tname = str ''t'', description = [], enabled = True,
     variants = [variantA, variantB], defaultVariant = str ''A''\<rparr>"

text \<open>A test none of whose variants has a positive weight; its default is the second variant.\<close>

definition pausedTest :: "unit ABTest" where
  "pausedTest = \<lparr>testId = str ''p'', tname = str ''p'', description = [], enabled = True,
     variants = [variantA\<lparr>weight := 0\<rparr>, variantB\<lparr>weight := 0\<rparr>], defaultVariant = str ''B''\<rparr>"

text \<open>A test whose weights sum to 70, so that a scaled scalar above 70 is never reached.\<close>

definition partialTest :: "unit ABTest" where
  "partialTest = \<lparr>testId = str ''q'', tname = str ''q'', description = [], enabled = True,
     variants = [variantA\<lparr>weight := 30\<rparr>, variantB], defaultVariant = str ''B''\<rparr>"


text \<open>
  A fresh browser context, whose document keeps cookies as \<open>keepCookie\<close> says, and a render
  pass without \<^verbatim>\<open>window\<close> and \<^verbatim>\<open>document\<close>.
\<close>

definition browser :: env where
  "browser = \<lparr>window = Some \<lparr>localStorage = Storage Map.empty False, va = Sink\<rparr>,
     document = Some \<lparr>cookies = Map.empty, assign = keepCookie\<rparr>, tracked = []\<rparr>"

definition server :: env where
  "server = \<lparr>window = None, document = None, tracked = []\<rparr>"

text \<open>A browser with the given entries in \<^verbatim>\<open>localStorage\<close> and the given cookies.\<close>

definition browserWith :: "(jsstring \<rightharpoonup> jsstring) \<Rightarrow> cookie_jar \<Rightarrow> env" where
  "browserWith entries jar = \<lparr>window = Some \<lparr>localStorage = Storage entries False, va = Sink\<rparr>,
     document = Some \<lparr>cookies = jar, assign = keepCookie\<rparr>, tracked = []\<rparr>"

text \<open>The browser after \<^verbatim>\<open>storeVariant\<close> has stored \<open>B\<close> for the test \<open>t\<close>.\<close>

definition assignedB :: env where
  "assignedB = browserWith [storageKey (str ''t'') \<mapsto> str ''B'']
     [cookieName abTestConfig \<mapsto> Encoded (ParsedObject [(str ''t'', JStr (str ''B''))])]"

text \<open>The shipped configuration with global testing switched off.\<close>

definition disabledConfig :: ABConfig where
  "disabledConfig = abTestConfig\<lparr>globalEnabled := False\<rparr>"

text \<open>Stores that disagree: the primary one holds the empty string, or \<open>A\<close>, and the cookie \<open>B\<close>.\<close>

definition emptyPrimary :: env where
  "emptyPrimary = browserWith [storageKey (str ''t'') \<mapsto> []]
     [cookieName abTestConfig \<mapsto> Encoded (ParsedObject [(str ''t'', JStr (str ''B''))])]"

definition disagreeing :: env where
  "disagreeing = browserWith [storageKey (str ''t'') \<mapsto> str ''A'']
     [cookieName abTestConfig \<mapsto> Encoded (ParsedObject [(str ''t'', JStr (str ''B''))])]"


text \<open>A browser whose stored assignment for the hero test names a variant that no longer exists.\<close>

definition staleHero :: env where
  "staleHero = browserWith [storageKey (str ''hero-messaging-test'') \<mapsto> str ''retired'']
     Map.empty"

text \<open>A browser whose cookie is not JSON.\<close>

definition garbledCookie :: env where
  "garbledCookie = browserWith Map.empty [cookieName abTestConfig \<mapsto> Garbled]"

text \<open>A browser whose only assignment is the one of the hero test, held by the cookie.\<close>

definition heroCookie :: env where
  "heroCookie = browserWith Map.empty
     [cookieName abTestConfig \<mapsto>
        Encoded (ParsedObject [(str ''hero-messaging-test'', JStr (str ''original''))])]"

text \<open>A fresh browser whose \<^verbatim>\<open>window.va\<close> throws.\<close>

definition throwingBrowser :: env where
  "throwingBrowser = \<lparr>window = Some \<lparr>localStorage = Storage Map.empty False, va = ThrowingSink\<rparr>,
     document = Some \<lparr>cookies = Map.empty, assign = keepCookie\<rparr>, tracked = []\<rparr>"

section \<open>Auxiliary facts\<close>

lemma roundHalfEven_ge: "\<lfloor>y\<rfloor> \<le> roundHalfEven y"
  by (simp add: roundHalfEven_def)

lemma roundHalfEven_le: "roundHalfEven y \<le> \<lceil>y\<rceil>"
  by (simp add: roundHalfEven_def ceiling_altdef)

lemma roundHalfEven_le_int: "y \<le> of_int N \<Longrightarrow> roundHalfEven y \<le> N"
  using roundHalfEven_le [of y] by (simp add: ceiling_le order_trans)

lemma roundHalfEven_ge_int: "of_int N \<le> y \<Longrightarrow> N \<le> roundHalfEven y"
  using roundHalfEven_ge [of y] by (meson le_floor_iff order_trans)

lemma binaryExponent_lower: assumes "0 < x" shows "2 powi binaryExponent x \<le> x"
proof (cases "1 \<le> x")
  case True
  then have m: "0 < \<lfloor>x\<rfloor>" by simp
  have b: "1 \<le> bitlen \<lfloor>x\<rfloor>" using m by (simp add: bitlen_alt_def)
  have "(2::int) ^ nat (bitlen \<lfloor>x\<rfloor> - 1) \<le> \<lfloor>x\<rfloor>" using bitlen_bounds [OF m] by simp
  then have "real_of_int (2 ^ nat (bitlen \<lfloor>x\<rfloor> - 1)) \<le> real_of_int \<lfloor>x\<rfloor>" by linarith
  also have "\<dots> \<le> x" by simp
  finally have "(2::real) ^ nat (bitlen \<lfloor>x\<rfloor> - 1) \<le> x" by simp
  then show ?thesis using True b by (simp add: binaryExponent_def power_int_nonneg_exp)
next
  case False
  with assms have y: "1 < 1 / x" by simp
  let ?m = "\<lceil>1 / x\<rceil> - 1"
  have m: "0 < ?m" using y by linarith
  have b: "1 \<le> bitlen ?m" using m by (simp add: bitlen_alt_def)
  have "?m < 2 ^ nat (bitlen ?m)" using bitlen_bounds [OF m] by simp
  then have "\<lceil>1 / x\<rceil> \<le> 2 ^ nat (bitlen ?m)" by linarith
  then have "1 / x \<le> real_of_int (2 ^ nat (bitlen ?m))" by (simp only: ceiling_le_iff)
  then have "1 / x \<le> 2 ^ nat (bitlen ?m)" by simp
  then have "1 / 2 ^ nat (bitlen ?m) \<le> x"
    using assms by (simp add: field_simps)
  moreover have "2 powi (- bitlen ?m) = (1::real) / 2 ^ nat (bitlen ?m)"
    using b by (simp add: power_int_minus_divide power_int_nonneg_exp)
  ultimately show ?thesis using False by (simp add: binaryExponent_def)
qed

lemma binaryExponent_upper: assumes "0 < x" shows "x < 2 powi (binaryExponent x + 1)"
proof (cases "1 \<le> x")
  case True
  then have m: "0 < \<lfloor>x\<rfloor>" by simp
  have b: "1 \<le> bitlen \<lfloor>x\<rfloor>" using m by (simp add: bitlen_alt_def)
  have "\<lfloor>x\<rfloor> < 2 ^ nat (bitlen \<lfloor>x\<rfloor>)" using bitlen_bounds [OF m] by simp
  then have "x < real_of_int (2 ^ nat (bitlen \<lfloor>x\<rfloor>))" by (simp only: floor_less_iff)
  then have "x < 2 ^ nat (bitlen \<lfloor>x\<rfloor>)" by simp
  then show ?thesis using True b by (simp add: binaryExponent_def power_int_nonneg_exp)
next
  case False
  with assms have y: "1 < 1 / x" by simp
  let ?m = "\<lceil>1 / x\<rceil> - 1"
  have m: "0 < ?m" using y by linarith
  have b: "1 \<le> bitlen ?m" using m by (simp add: bitlen_alt_def)
  have "(2::int) ^ nat (bitlen ?m - 1) \<le> ?m" using bitlen_bounds [OF m] by simp
  then have "real_of_int (2 ^ nat (bitlen ?m - 1)) \<le> real_of_int ?m" by linarith
  also have "\<dots> < 1 / x" by linarith
  finally have "(2::real) ^ nat (bitlen ?m - 1) < 1 / x" by simp
  then have "x < 1 / 2 ^ nat (bitlen ?m - 1)"
    using assms by (simp add: field_simps)
  moreover have "2 powi (- bitlen ?m + 1) = (1::real) / 2 ^ nat (bitlen ?m - 1)"
  proof -
    have "- bitlen ?m + 1 = - (bitlen ?m - 1)" by simp
    then show ?thesis using b
      by (simp only: power_int_minus_divide) (simp add: power_int_nonneg_exp)
  qed
  ultimately show ?thesis using False by (simp add: binaryExponent_def)
qed

lemma fl64_pos_unfold:
  assumes "0 < x" and "e = max (binaryExponent x) (- 1022)"
  shows "fl64 x = of_int (roundHalfEven (x / 2 powi (e - 52))) * 2 powi (e - 52)"
  using assms by (simp add: fl64_def)

lemma ulp_small:
  assumes "e \<le> 52"
  shows "2 powi (e - 52) = (1::real) / 2 ^ nat (52 - e)"
proof -
  have "e - 52 = - (52 - e)" by simp
  then show ?thesis using assms
    by (simp only: power_int_minus_divide) (simp add: power_int_nonneg_exp)
qed

lemma fl64_le_int:
  assumes "x \<le> of_int n" and "0 \<le> n" and "n \<le> 2 ^ 52"
  shows "fl64 x \<le> of_int n"
proof -
  consider "x = 0" | "x < 0" | "0 < x" by linarith
  then show ?thesis
  proof cases
    case 1
    then show ?thesis using assms(2) by (simp add: fl64_def)
  next
    case 2
    let ?u = "(2::real) powi (max (binaryExponent \<bar>x\<bar>) (- 1022) - 52)"
    have u: "0 < ?u" by simp
    have "x / ?u \<le> of_int 0" using 2 u by (simp add: divide_nonpos_pos)
    then have "roundHalfEven (x / ?u) \<le> 0" by (rule roundHalfEven_le_int)
    then have "of_int (roundHalfEven (x / ?u)) * ?u \<le> 0"
      using u by (simp add: mult_le_0_iff)
    then show ?thesis using 2 assms(2) by (simp add: fl64_def)
  next
    case 3
    define e where "e = max (binaryExponent x) (- 1022)"
    have "2 powi binaryExponent x \<le> x" using 3 by (rule binaryExponent_lower)
    also have "x \<le> 2 ^ 52"
    proof -
      have "real_of_int n \<le> real_of_int (2 ^ 52)" using assms(3) by (simp only: of_int_le_iff)
      with assms(1) show ?thesis by simp
    qed
    finally have "(2::real) powi binaryExponent x \<le> 2 powi 52" by simp
    then have "binaryExponent x \<le> 52"
      using power_int_le_imp_le_exp [of "2::real" "binaryExponent x" 52] by simp
    then have e: "e \<le> 52" by (simp add: e_def)
    let ?k = "nat (52 - e)"
    have "x * 2 ^ ?k \<le> of_int n * 2 ^ ?k" using assms(1) by simp
    then have "x / 2 powi (e - 52) \<le> of_int (n * 2 ^ ?k)" by (simp add: ulp_small [OF e])
    then have "roundHalfEven (x / 2 powi (e - 52)) \<le> n * 2 ^ ?k" by (rule roundHalfEven_le_int)
    then have "real_of_int (roundHalfEven (x / 2 powi (e - 52))) \<le> real_of_int (n * 2 ^ ?k)"
      by (simp only: of_int_le_iff)
    then have "real_of_int (roundHalfEven (x / 2 powi (e - 52))) * 2 powi (e - 52) \<le> of_int n"
      by (simp add: ulp_small [OF e] field_simps)
    then show ?thesis by (simp add: fl64_pos_unfold [OF 3 e_def])
  qed
qed

lemma fl64_ge_int:
  assumes "of_int n \<le> x" and "0 \<le> n" and "n \<le> 2 ^ 52"
  shows "of_int n \<le> fl64 x"
proof (cases "x = 0")
  case True
  then show ?thesis using assms(1) by (simp add: fl64_def)
next
  case False
  then have pos: "0 < x" using assms(1,2) by (smt (verit) of_int_nonneg)
  define e where "e = max (binaryExponent x) (- 1022)"
  show ?thesis
  proof (cases "e \<le> 52")
    case True
    let ?k = "nat (52 - e)"
    have "of_int n * 2 ^ ?k \<le> x * 2 ^ ?k" using assms(1) by simp
    then have "of_int (n * 2 ^ ?k) \<le> x / 2 powi (e - 52)" by (simp add: ulp_small [OF True])
    then have "n * 2 ^ ?k \<le> roundHalfEven (x / 2 powi (e - 52))" by (rule roundHalfEven_ge_int)
    then have "real_of_int (n * 2 ^ ?k) \<le> real_of_int (roundHalfEven (x / 2 powi (e - 52)))"
      by (simp only: of_int_le_iff)
    then have "of_int n \<le> real_of_int (roundHalfEven (x / 2 powi (e - 52))) * 2 powi (e - 52)"
      by (simp add: ulp_small [OF True] field_simps)
    then show ?thesis by (simp add: fl64_pos_unfold [OF pos e_def])
  next
    case False
    then have big: "52 < e" by simp
    then have eq: "e = binaryExponent x" by (simp add: e_def max_def split: if_splits)
    let ?j = "nat (e - 52)"
    have u: "2 powi (e - 52) = (2::real) ^ ?j" using big by (simp add: power_int_nonneg_exp)
    have "(2::real) powi e = 2 ^ 52 * 2 ^ ?j"
    proof -
      have "e = 52 + (e - 52)" by simp
      then have "(2::real) powi e = 2 powi 52 * 2 powi (e - 52)"
        by (metis power_int_add zero_neq_numeral)
      then show ?thesis by (simp add: u)
    qed
    moreover have "2 powi e \<le> x" unfolding eq using pos by (rule binaryExponent_lower)
    ultimately have "(2::real) ^ 52 * 2 ^ ?j \<le> x" by simp
    then have "of_int (2 ^ 52) \<le> x / 2 powi (e - 52)" by (simp add: u field_simps)
    then have "2 ^ 52 \<le> roundHalfEven (x / 2 powi (e - 52))" by (rule roundHalfEven_ge_int)
    then have "n \<le> roundHalfEven (x / 2 powi (e - 52))" using assms(3) by linarith
    then have "real_of_int n \<le> real_of_int (roundHalfEven (x / 2 powi (e - 52)))"
      by (simp only: of_int_le_iff)
    also have "\<dots> \<le> real_of_int (roundHalfEven (x / 2 powi (e - 52))) * 2 ^ ?j"
    proof -
      have "(0::int) \<le> 2 ^ 52" by simp
      then have "0 \<le> roundHalfEven (x / 2 powi (e - 52))"
        using \<open>2 ^ 52 \<le> roundHalfEven (x / 2 powi (e - 52))\<close> by (rule order_trans)
      moreover have "(1::real) \<le> 2 ^ ?j" by simp
      ultimately show ?thesis by (simp add: mult_le_cancel_left1)
    qed
    finally show ?thesis by (simp add: fl64_pos_unfold [OF pos e_def] u)
  qed
qed

lemma fl64_of_int: "0 \<le> n \<Longrightarrow> n \<le> 2 ^ 52 \<Longrightarrow> fl64 (of_int n) = of_int n"
  using fl64_le_int [of "of_int n" n] fl64_ge_int [of n "of_int n"] by simp

lemma fl64_numeral: "numeral k \<le> (2::int) ^ 52 \<Longrightarrow> fl64 (numeral k) = numeral k"
  using fl64_of_int [of "numeral k"] by simp

lemma fl64_0: "fl64 0 = 0"
  by (simp add: fl64_def)

lemma find_map_index:
  "List.find P (map f xs) = map_option f (List.find (\<lambda>x. P (f x)) xs)"
  by (induction xs) auto

lemma weightLoop_indices:
  "weightLoop x acc vs =
     map_option (\<lambda>i. vs ! i)
       (List.find (\<lambda>i. x \<le> foldl (\<lambda>acc v. fl64 (acc + weight v)) acc (take (Suc i) vs))
          [0..<length vs])"
proof (induction vs arbitrary: acc)
  case Nil
  then show ?case by simp
next
  case (Cons v vs)
  have up: "[0..<length (v # vs)] = 0 # map Suc [0..<length vs]"
  proof -
    have "[0..<Suc (length vs)] = 0 # [Suc 0..<Suc (length vs)]"
      by (rule upt_conv_Cons) simp
    then show ?thesis by (simp only: map_Suc_upt length_Cons)
  qed
  show ?case
  proof (cases "x \<le> fl64 (acc + weight v)")
    case True
    then show ?thesis unfolding up by simp
  next
    case False
    then show ?thesis
      unfolding up by (simp add: Cons.IH find_map_index option.map_comp comp_def)
  qed
qed

lemma weightLoop_firstReaching: "weightLoop x 0 vs = firstReaching x vs"
  by (simp add: weightLoop_indices firstReaching_def cumulativeWeightAt_def)

lemma jsString_eq: "jsString a = jsString b \<longleftrightarrow> a = b"
  by simp

lemma default_find:
  "getDefaultVariant (Some test) = List.find (\<lambda>v. vid v = defaultVariant test) (variants test)"
  by (simp add: getVariantById_def)

lemma assign_eq_spec:
  "assignVariantByWeight test userId mathRandom =
     weightedSelection test (selectionScalar test userId mathRandom)"
proof (cases "filter (\<lambda>v. weight v > 0) (variants test)")
  case Nil
  then show ?thesis
    by (simp add: assignVariantByWeight_def weightedSelection_def getVariantById_def)
next
  case (Cons first others)
  then show ?thesis
    unfolding assignVariantByWeight_def weightedSelection_def weightLoop_firstReaching
    by (simp split: option.splits)
qed

lemma str_char_unat: "unat (of_nat (of_char c :: nat) :: 16 word) = of_char c"
proof -
  have "(of_char c :: nat) mod 256 < 256" by (rule mod_less_divisor) simp
  then have "(of_char c :: nat) < 256" by (simp only: of_char_mod_256)
  then have "(of_char c :: nat) < 65536" by linarith
  then have "(of_char c :: nat) < 2 ^ LENGTH(16)" by simp
  then show ?thesis by (simp add: unat_of_nat take_bit_nat_eq_self)
qed

lemma str_eq_iff: "str a = str b \<longleftrightarrow> a = b"
proof
  assume "str a = str b"
  then have "map unat (str a) = map unat (str b)" by simp
  then have "map (of_char :: char \<Rightarrow> nat) a = map of_char b"
    by (simp add: str_def comp_def str_char_unat)
  then have "map char_of (map (of_char :: char \<Rightarrow> nat) a)
      = map char_of (map (of_char :: char \<Rightarrow> nat) b)"
    by simp
  then show "a = b" by (simp add: comp_def)
qed simp

lemma str_Nil_iff: "str a = [] \<longleftrightarrow> a = []"
  by (simp add: str_def)

lemma getStoredVariant_returns: "\<exists>r. getStoredVariant cfg tid e = Inr r"
  by (simp add: getStoredVariant_def split: sum.splits option.splits)

lemma storeVariant_returns: "\<exists>e'. storeVariant cfg tid v e = Inr e'"
  by (simp add: storeVariant_def split: sum.splits option.splits)

lemma getStoredVariant_primary:
  assumes "primaryEntry e (storageKey tid) = Some p" and "p \<noteq> []"
  shows "getStoredVariant cfg tid e = Inr (jsString p)"
  using assms
  by (auto simp: primaryEntry_def getStoredVariant_def getItem_def
      split: option.splits storage.splits)

lemma trackAnalyticsEvent_returns:
  "sinkReturns e \<Longrightarrow> \<exists>e'. trackAnalyticsEvent cfg ty tid v md e = Inr e'
      \<and> window e' = window e \<and> document e' = document e"
  by (auto simp: trackAnalyticsEvent_def sinkReturns_def split: option.splits sink.splits)

lemma storeVariant_window:
  "storeVariant cfg tid v e = Inr e' \<Longrightarrow>
     map_option va (window e') = map_option va (window e)"
  by (auto simp: storeVariant_def setItem_def setCookie_def
      split: option.splits sum.splits storage.splits if_splits)

lemma storeVariant_sinkReturns:
  "storeVariant cfg tid v e = Inr e' \<Longrightarrow> sinkReturns e \<Longrightarrow> sinkReturns e'"
  using storeVariant_window [of cfg tid v e e']
  by (auto simp: sinkReturns_def split: option.splits)

lemma assign_None_default:
  "assignVariantByWeight test userId mathRandom = None \<Longrightarrow> getDefaultVariant (Some test) = None"
  by (auto simp: assignVariantByWeight_def split: list.splits option.splits)

lemma getVariant_disabled:
  "getTestByIdFromRegistry reg tid = Some test \<Longrightarrow> \<not> globalEnabled cfg \<or> \<not> enabled test \<Longrightarrow>
   getVariant reg cfg tid userId mathRandom e = Inr (getDefaultVariant (Some test), e)"
  by (auto simp: getVariant_def)

lemma getVariant_not_found:
  "getTestByIdFromRegistry reg tid = None \<Longrightarrow> getVariant reg cfg tid userId r e = Inr (None, e)"
  by (simp add: getVariant_def)

lemma getVariant_assigns:
  assumes "getTestByIdFromRegistry reg tid = Some test" and "enabled test" and "globalEnabled cfg"
    and "getStoredVariant cfg tid e = Inr stored"
    and "\<not> (truthy stored \<and> isValidVariant test stored)"
    and "sinkReturns e"
  shows "\<exists>e'. getVariant reg cfg tid userId mathRandom e =
           Inr (assignVariantByWeight test userId mathRandom, e')"
proof (cases "assignVariantByWeight test userId mathRandom")
  case None
  with assms assign_None_default [OF None] show ?thesis
    by (auto simp: getVariant_def)
next
  case (Some selected)
  obtain e1 where e1: "storeVariant cfg tid (vid selected) e = Inr e1"
    using storeVariant_returns by blast
  then have "sinkReturns e1" using assms(6) by (rule storeVariant_sinkReturns)
  then obtain e2 where
    "trackAnalyticsEvent cfg VARIANT_ASSIGNED tid (jsString (vid selected)) None e1 = Inr e2"
    using trackAnalyticsEvent_returns by blast
  with assms Some e1 show ?thesis
    by (auto simp: getVariant_def)
qed



lemmas scenario_defs = scenarioTest_def variantA_def variantB_def

lemma str_unit_inj: "inj (\<lambda>c. of_nat (of_char c :: nat) :: 16 word)"
proof (rule injI)
  fix a b :: char
  assume "(of_nat (of_char a :: nat) :: 16 word) = of_nat (of_char b)"
  then have "unat (of_nat (of_char a :: nat) :: 16 word) = unat (of_nat (of_char b :: nat) :: 16 word)"
    by simp
  then have "(of_char a :: nat) = of_char b" by (simp only: str_char_unat)
  then show "a = b" by simp
qed

lemma str_semicolon: "59 \<in> set (str s) \<longleftrightarrow> CHR '';'' \<in> set s"
proof -
  have "(59 :: 16 word) = of_nat (of_char (CHR '';'') :: nat)" by simp
  then show ?thesis
    unfolding str_def set_map by (simp only: inj_image_mem_iff [OF str_unit_inj])
qed

lemma browserWith_window:
  "window (browserWith entries jar) = Some \<lparr>localStorage = Storage entries False, va = Sink\<rparr>"
  "document (browserWith entries jar) = Some \<lparr>cookies = jar, assign = keepCookie\<rparr>"
  "tracked (browserWith entries jar) = []"
  by (simp_all add: browserWith_def)

lemma browser_eq: "browser = browserWith Map.empty Map.empty"
  by (simp add: browser_def browserWith_def)

lemma primaryEntry_browserWith: "primaryEntry (browserWith entries jar) k = entries k"
  by (simp add: primaryEntry_def browserWith_def)

lemma getCookie_browserWith: "getCookie (browserWith entries jar) c = jar c"
  by (simp add: getCookie_def browserWith_def)

lemma sinkReturns_browserWith: "sinkReturns (browserWith entries jar)"
  by (simp add: sinkReturns_def browserWith_def)

lemma sinkReturns_server: "sinkReturns server"
  by (simp add: sinkReturns_def server_def)

lemma sinkReturns_browser: "sinkReturns browser"
  by (simp add: browser_eq sinkReturns_browserWith)

lemma browser_unassigned: "getStoredVariant cfg tid browser = Inr null"
  by (simp add: getStoredVariant_def browser_def getItem_def getCookie_def)

lemma server_unassigned: "getStoredVariant cfg tid server = Inr null"
  by (simp add: getStoredVariant_def server_def)

lemma scenario_lookup: "getTestByIdFromRegistry [scenarioTest] (str ''t'') = Some scenarioTest"
  by (simp add: getTestByIdFromRegistry_def scenarioTest_def)

lemma scenario_enabled: "enabled scenarioTest"
  by (simp add: scenarioTest_def)

lemma abTestConfig_enabled: "globalEnabled abTestConfig"
  by (simp add: abTestConfig_def)

lemma scenario_half: "weightedSelection scenarioTest (1/2) = Some variantA"
  by (simp add: weightedSelection_def firstReaching_def cumulativeWeightAt_def scenario_defs
      fl64_numeral)

lemma scenario_nine_tenths: "weightedSelection scenarioTest (9/10) = Some variantB"
  by (simp add: weightedSelection_def firstReaching_def cumulativeWeightAt_def scenario_defs
      fl64_numeral)

lemma paused_default: "weightedSelection pausedTest (1/2) = Some (variantB\<lparr>weight := 0\<rparr>)"
  by (simp add: weightedSelection_def pausedTest_def variantA_def variantB_def str_eq_iff)

lemma partial_falls_to_first:
  "weightedSelection partialTest (9/10) = Some (variantA\<lparr>weight := 30\<rparr>)"
  by (simp add: weightedSelection_def firstReaching_def cumulativeWeightAt_def partialTest_def
      variantA_def variantB_def fl64_numeral)

lemma cta_rounded_product:
  "fl64 (5944751508129055 / 2 ^ 53 * 100) = 66"
  by code_simp

lemma cta_rounded_product': "fl64 (148618787703226375 / 2251799813685248) = 66"
  using cta_rounded_product by simp

lemma cta_at_066:
  "weightedSelection ctaABTest (5944751508129055 / 2 ^ 53) = Some (variants ctaABTest ! 1)"
  by (simp add: weightedSelection_def firstReaching_def cumulativeWeightAt_def ctaABTest_def
      fl64_numeral cta_rounded_product')


lemma assignedB_primary: "primaryEntry assignedB (storageKey (str ''t'')) = Some (str ''B'')"
  by (simp add: assignedB_def primaryEntry_browserWith)






lemma scalar_identified:
  "u \<noteq> [] \<Longrightarrow> selectionScalar test (Some u) r = hashStringToNumber (u @ testId test)"
  by (simp add: selectionScalar_def)

lemma assign_identified:
  "u \<noteq> [] \<Longrightarrow> assignVariantByWeight test (Some u) r1 = assignVariantByWeight test (Some u) r2"
  by (simp add: assign_eq_spec scalar_identified)

lemma hero_lookup:
  "getTestByIdFromRegistry abTestRegistry (str ''hero-messaging-test'') = Some heroABTest"
  by (simp add: getTestByIdFromRegistry_def abTestRegistry_def heroABTest_def)

lemma hero_enabled: "enabled heroABTest"
  by (simp add: heroABTest_def)

lemma visitor_hash:
  "hashStringToNumber (str ''visitor-42'' @ testId heroABTest) = 1978741905 / 2147483648"
proof -
  have "hashLoop 0 (str ''visitor-42'' @ testId heroABTest) = 1978741905"
    by (simp add: heroABTest_def str_def push_bit_eq_mult)
  then show ?thesis by (simp add: hashStringToNumber_def)
qed

lemma hero_visitor:
  "weightedSelection heroABTest (1978741905 / 2147483648) = Some (variants heroABTest ! 1)"
  by code_simp

lemma hero_quarter:
  "assignVariantByWeight heroABTest (Some []) (1/4) = Some (variants heroABTest ! 0)"
  by code_simp

lemma hero_three_quarters:
  "assignVariantByWeight heroABTest (Some []) (3/4) = Some (variants heroABTest ! 1)"
  by code_simp

lemma map_of_fold_update:
  "map_of (fold (\<lambda>(k, v) acc. AList.update k v acc) m props) = map_of props ++ map_of (rev m)"
proof (induction m arbitrary: props)
  case Nil
  then show ?case by simp
next
  case (Cons kv m)
  obtain k v where kv: "kv = (k, v)" by (cases kv)
  show ?case
    by (simp add: kv Cons.IH update_conv' map_add_upd_left fun_eq_iff map_add_def
        split: option.splits)
qed

lemma map_of_spread: "map_of (spread props metadata) = map_of props ++ metadataMap metadata"
  by (cases metadata) (simp_all add: spread_def metadataMap_def map_of_fold_update)

lemma unstored_get:
  assumes "primaryEntry e (storageKey tid) = None"
    and "\<forall>m. getCookie e (cookieName cfg) = Some (Encoded (ParsedObject m)) \<longrightarrow> map_of m tid = None"
    and "tid \<notin> set objectPrototypeNames"
  shows "getStoredVariant cfg tid e = Inr null"
  using assms
  by (auto simp: getStoredVariant_def getItem_def JSON_parse_def getProperty_def primaryEntry_def
      split: option.splits cookie_text.splits parsed.splits storage.splits)

lemma tracking_needs_assignment:
  assumes "primaryEntry e (storageKey tid) = None"
    and "\<forall>m. getCookie e (cookieName cfg) = Some (Encoded (ParsedObject m)) \<longrightarrow> map_of m tid = None"
    and "tid \<notin> set objectPrototypeNames"
  shows "trackConversion cfg tid conversionType metadata e = Inr e"
    and "trackInteraction cfg tid interactionType metadata e = Inr e"
  using unstored_get [OF assms]
  by (simp_all add: trackConversion_def trackInteraction_def)

lemma tracking_metadata:
  assumes "getStoredVariant cfg tid e = Inr v" and "truthy v"
  shows "\<exists>merged. trackConversion cfg tid conversionType metadata e
             = trackAnalyticsEvent cfg VARIANT_CONVERSION tid v (Some merged) e
           \<and> map_of merged =
               [str ''conversion_type'' \<mapsto>
                  jsString (case conversionType of None \<Rightarrow> str ''default'' | Some c \<Rightarrow> c)]
               ++ metadataMap metadata"
    and "\<exists>merged. trackInteraction cfg tid interactionType metadata e
             = trackAnalyticsEvent cfg VARIANT_INTERACTION tid v (Some merged) e
           \<and> map_of merged =
               [str ''interaction_type'' \<mapsto> jsString interactionType] ++ metadataMap metadata"
proof -
  show "\<exists>merged. trackConversion cfg tid conversionType metadata e
             = trackAnalyticsEvent cfg VARIANT_CONVERSION tid v (Some merged) e
           \<and> map_of merged =
               [str ''conversion_type'' \<mapsto>
                  jsString (case conversionType of None \<Rightarrow> str ''default'' | Some c \<Rightarrow> c)]
               ++ metadataMap metadata"
    by (rule exI [where x = "spread [(str ''conversion_type'',
          jsString (case conversionType of None \<Rightarrow> str ''default'' | Some c \<Rightarrow> c))] metadata"])
       (simp add: trackConversion_def assms map_of_spread)
  show "\<exists>merged. trackInteraction cfg tid interactionType metadata e
             = trackAnalyticsEvent cfg VARIANT_INTERACTION tid v (Some merged) e
           \<and> map_of merged =
               [str ''interaction_type'' \<mapsto> jsString interactionType] ++ metadataMap metadata"
    by (rule exI [where x = "spread [(str ''interaction_type'', jsString interactionType)] metadata"])
       (simp add: trackInteraction_def assms map_of_spread)
qed

lemma constructor_inherited: "str ''constructor'' \<in> set objectPrototypeNames"
  by (simp add: objectPrototypeNames_def)

lemma heroCookie_constructor:
  "getStoredVariant abTestConfig (str ''constructor'') heroCookie = Inr (Native (str ''constructor''))"
  by (simp add: getStoredVariant_def heroCookie_def browserWith_def getItem_def getCookie_def
      JSON_parse_def getProperty_def constructor_inherited str_eq_iff)

lemma weightedSelection_None_iff:
  "weightedSelection test x = None \<longleftrightarrow>
     filter (\<lambda>v. weight v > 0) (variants test) = []
     \<and> List.find (\<lambda>v. vid v = defaultVariant test) (variants test) = None"
  by (auto simp: weightedSelection_def Let_def split: option.splits)

lemma staleHero_stored:
  "getStoredVariant abTestConfig (str ''hero-messaging-test'') staleHero
     = Inr (jsString (str ''retired''))"
  by (rule getStoredVariant_primary)
     (simp_all add: staleHero_def primaryEntry_browserWith str_Nil_iff)

lemma retired_invalid: "\<not> isValidVariant heroABTest (jsString (str ''retired''))"
  by (simp add: isValidVariant_def heroABTest_def str_eq_iff)

lemma retired_truthy: "truthy (jsString (str ''retired''))"
  by (simp add: str_Nil_iff)

lemma hero_nine_tenths:
  "weightedSelection heroABTest (9/10) = Some (variants heroABTest ! 1)"
  by code_simp

lemma hash_range: "0 \<le> hashStringToNumber s \<and> hashStringToNumber s \<le> 1"
proof -
  have "\<bar>sint (hashLoop 0 s)\<bar> \<le> 2 ^ 31"
    using sint_ge [of "hashLoop 0 s"] sint_lt [of "hashLoop 0 s"] by simp
  then have "real_of_int \<bar>sint (hashLoop 0 s)\<bar> \<le> 2 ^ 31"
    by (metis of_int_le_iff of_int_numeral of_int_power)
  then show ?thesis by (simp add: hashStringToNumber_def)
qed

lemma hash_one_iff: "hashStringToNumber s = 1 \<longleftrightarrow> sint (hashLoop 0 s) = - (2 ^ 31)"
proof -
  have lt: "sint (hashLoop 0 s) < 2 ^ 31"
    using sint_lt [of "hashLoop 0 s"] by simp
  have "hashStringToNumber s = 1 \<longleftrightarrow> real_of_int \<bar>sint (hashLoop 0 s)\<bar> = 2 ^ 31"
    by (simp add: hashStringToNumber_def)
  also have "\<dots> \<longleftrightarrow> \<bar>sint (hashLoop 0 s)\<bar> = 2 ^ 31"
    by (metis of_int_eq_iff of_int_numeral of_int_power)
  also have "\<dots> \<longleftrightarrow> sint (hashLoop 0 s) = - (2 ^ 31)"
    using lt by auto
  finally show ?thesis .
qed

lemma hash_polygenelubricants: "hashLoop 0 (str ''polygenelubricants'') = 2147483648"
  by (simp add: str_def push_bit_eq_mult)

lemma scalar_le_one:
  "0 \<le> mathRandom \<Longrightarrow> mathRandom < 1 \<Longrightarrow> selectionScalar test userId mathRandom \<le> 1"
  using hash_range by (auto simp: selectionScalar_def split: option.splits)

lemma scaled_le_100:
  assumes "0 \<le> mathRandom" and "mathRandom < 1"
  shows "fl64 (selectionScalar test userId mathRandom * 100) \<le> 100"
proof -
  have "selectionScalar test userId mathRandom * 100 \<le> real_of_int 100"
    using scalar_le_one [OF assms, of test userId] by simp
  then have "fl64 (selectionScalar test userId mathRandom * 100) \<le> real_of_int 100"
    by (rule fl64_le_int) simp_all
  then show ?thesis by simp
qed

lemma registry_wellFormed: "list_all wellFormedTest abTestRegistry"
  by (simp add: abTestRegistry_def wellFormedTest_def heroABTest_def missionABTest_def
      ctaABTest_def str_eq_iff)

lemma registry_no_fallback:
  assumes "test \<in> set abTestRegistry" and "x \<le> 100"
  shows "filter (\<lambda>v. weight v > 0) (variants test) \<noteq> []
       \<and> weightLoop x 0 (filter (\<lambda>v. weight v > 0) (variants test)) \<noteq> None
       \<and> getDefaultVariant (Some test) \<noteq> None"
proof -
  from assms(1) consider "test = heroABTest" | "test = missionABTest" | "test = ctaABTest"
    by (auto simp: abTestRegistry_def)
  then show ?thesis
  proof cases
    case 1
    then show ?thesis using assms(2)
      by (simp add: heroABTest_def getVariantById_def fl64_numeral)
  next
    case 2
    then show ?thesis using assms(2)
      by (simp add: missionABTest_def getVariantById_def fl64_numeral)
  next
    case 3
    then show ?thesis using assms(2)
      by (simp add: ctaABTest_def getVariantById_def fl64_numeral)
  qed
qed

lemma cta_999: "weightLoop (fl64 (selectionScalar ctaABTest None (999/1000) * 100)) 0
        (filter (\<lambda>v. weight v > 0) (variants ctaABTest)) = Some (variants ctaABTest ! 2)"
  by code_simp

lemma cookie_cut_at_semicolon:
  "map_sum id (\<lambda>e. getCookie e (cookieName abTestConfig))
     (storeVariant abTestConfig (str ''t'') (str ''a;b'') browser) = Inr (Some Garbled)"
  by (simp add: storeVariant_def setItem_def getCookie_def setProperty_def setCookie_def
      keepCookie_def JSON_stringify_def browser_def abTestConfig_def str_eq_iff str_semicolon)

lemma cookie_expired_at_once:
  "map_sum id (\<lambda>e. getCookie e (cookieName abTestConfig))
     (storeVariant (abTestConfig\<lparr>cookieExpireDays := 0\<rparr>) (str ''t'') (str ''B'') browser)
   = Inr None"
  by (simp add: storeVariant_def setItem_def getCookie_def setProperty_def setCookie_def
      keepCookie_def JSON_stringify_def browser_def abTestConfig_def str_eq_iff str_semicolon)

lemma sink_exception_reaches_caller:
  "getVariant [scenarioTest] abTestConfig (str ''t'') None (1/2) throwingBrowser = Inl SinkError"
proof -
  have u: "getStoredVariant abTestConfig (str ''t'') throwingBrowser = Inr null"
    by (simp add: getStoredVariant_def throwingBrowser_def getItem_def getCookie_def)
  have a: "assignVariantByWeight scenarioTest None (1/2) = Some variantA"
    by (simp add: assign_eq_spec selectionScalar_def scenario_half)
  obtain e1 where e1: "storeVariant abTestConfig (str ''t'') (vid variantA) throwingBrowser = Inr e1"
    using storeVariant_returns by blast
  then have "map_option va (window e1) = Some ThrowingSink"
    using storeVariant_window [OF e1] by (simp add: throwingBrowser_def)
  then have "trackAnalyticsEvent abTestConfig VARIANT_ASSIGNED (str ''t'')
      (jsString (vid variantA)) None e1 = Inl SinkError"
    by (auto simp: trackAnalyticsEvent_def abTestConfig_def split: option.splits)
  then show ?thesis
    by (simp add: getVariant_def scenario_lookup scenario_enabled abTestConfig_enabled u a e1)
qed

lemma proto_not_stored:
  "setProperty (ParsedObject []) (str ''__proto__'') v = Inr (ParsedObject [])"
  by (simp add: setProperty_def)

section \<open>Claims\<close>

subsection \<open>C1\<close>

text \<open>
  Claim C1. For an enabled test, with global testing enabled, no stored assignment and an
  analytics sink that returns, \<^verbatim>\<open>getVariant\<close> returns what the selection rule of the
  specification selects: \<^verbatim>\<open>assignVariantByWeight\<close> returns the first variant of weight
  \<open>> 0\<close>, in declaration order, whose cumulative weight is at least the scalar times 100, the
  first qualifying variant when the weights never reach it, and the variant with the default
  id when no variant qualifies. In the scenario (\<open>A\<close> 60, \<open>B\<close> 40) the scalar 0.5 selects \<open>A\<close>
  and 0.9 selects \<open>B\<close>. The product and the sums are those of double arithmetic: for the
  weights 33, 33, 34 the double nearest 0.66 gives the product 66 and the second variant.
\<close>

theorem C1_weighted_selection:
  assumes "getTestByIdFromRegistry reg tid = Some test" and "enabled test" and "globalEnabled cfg"
    and "getStoredVariant cfg tid e = Inr null" and "sinkReturns e"
  shows "assignVariantByWeight test userId mathRandom =
           weightedSelection test (selectionScalar test userId mathRandom)
       \<and> (\<exists>e'. getVariant reg cfg tid userId mathRandom e =
             Inr (weightedSelection test (selectionScalar test userId mathRandom), e'))"
proof -
  have "\<exists>e'. getVariant reg cfg tid userId mathRandom e =
          Inr (assignVariantByWeight test userId mathRandom, e')"
    using assms(5) by (intro getVariant_assigns [OF assms(1-4)]) simp_all
  then show ?thesis by (simp add: assign_eq_spec)
qed

theorem C1_weighted_selection_witness:
  "getTestByIdFromRegistry [scenarioTest] (str ''t'') = Some scenarioTest
   \<and> enabled scenarioTest \<and> globalEnabled abTestConfig
   \<and> getStoredVariant abTestConfig (str ''t'') browser = Inr null \<and> sinkReturns browser
   \<and> assignVariantByWeight scenarioTest None (1/2) = Some variantA
   \<and> assignVariantByWeight scenarioTest None (9/10) = Some variantB
   \<and> (\<exists>e'. getVariant [scenarioTest] abTestConfig (str ''t'') None (1/2) browser
           = Inr (Some variantA, e'))
   \<and> (\<exists>e'. getVariant [scenarioTest] abTestConfig (str ''t'') None (9/10) browser
           = Inr (Some variantB, e'))
   \<and> assignVariantByWeight pausedTest None (1/2) = Some (variantB\<lparr>weight := 0\<rparr>)
   \<and> assignVariantByWeight partialTest None (9/10) = Some (variantA\<lparr>weight := 30\<rparr>)
   \<and> assignVariantByWeight ctaABTest None (5944751508129055 / 2 ^ 53)
       = Some (variants ctaABTest ! 1)"
proof -
  note c1 = C1_weighted_selection [OF scenario_lookup scenario_enabled abTestConfig_enabled
      browser_unassigned sinkReturns_browser, of None]
  have other:
    "assignVariantByWeight pausedTest None (1/2) = Some (variantB\<lparr>weight := 0\<rparr>)"
    "assignVariantByWeight partialTest None (9/10) = Some (variantA\<lparr>weight := 30\<rparr>)"
    "assignVariantByWeight ctaABTest None (5944751508129055 / 2 ^ 53)
       = Some (variants ctaABTest ! 1)"
    by (simp_all only: assign_eq_spec selectionScalar_def option.case paused_default
        partial_falls_to_first cta_at_066)
  show ?thesis
    using c1 [of "1/2"] c1 [of "9/10"] scenario_lookup scenario_enabled abTestConfig_enabled
      browser_unassigned sinkReturns_browser other
    by (simp add: selectionScalar_def scenario_half scenario_nine_tenths)
qed

subsection \<open>C2\<close>




subsection \<open>C3\<close>

text \<open>
  Claim C3. If global testing is disabled or the test found is disabled, \<^verbatim>\<open>getVariant\<close>
  returns the variant whose id is the test's \<^verbatim>\<open>defaultVariant\<close>, reads no stored assignment
  and no weight, and changes nothing; if no test has the given id it returns \<^verbatim>\<open>null\<close>.
\<close>

theorem C3_disabled_default:
  "(getTestByIdFromRegistry reg tid = Some test \<and> (\<not> globalEnabled cfg \<or> \<not> enabled test) \<longrightarrow>
      getVariant reg cfg tid userId mathRandom e =
        Inr (List.find (\<lambda>v. vid v = defaultVariant test) (variants test), e))
   \<and> (getTestByIdFromRegistry reg tid = None \<longrightarrow>
      getVariant reg cfg tid userId mathRandom e = Inr (None, e))"
  by (auto simp: getVariant_def getVariantById_def)

theorem C3_disabled_default_witness:
  "getTestByIdFromRegistry [scenarioTest] (str ''t'') = Some scenarioTest
   \<and> \<not> globalEnabled disabledConfig
   \<and> getStoredVariant disabledConfig (str ''t'') assignedB = Inr (jsString (str ''B''))
   \<and> getVariant [scenarioTest] disabledConfig (str ''t'') None (9/10) assignedB
        = Inr (Some variantA, assignedB)
   \<and> getTestByIdFromRegistry [scenarioTest] (str ''u'') = None
   \<and> getVariant [scenarioTest] abTestConfig (str ''u'') None (9/10) assignedB
        = Inr (None, assignedB)"
proof -
  have off: "\<not> globalEnabled disabledConfig" by (simp add: disabledConfig_def)
  have ne: "str ''B'' \<noteq> []" by (simp add: str_Nil_iff)
  have stored: "getStoredVariant disabledConfig (str ''t'') assignedB = Inr (jsString (str ''B''))"
    using assignedB_primary ne by (rule getStoredVariant_primary)
  have missing: "getTestByIdFromRegistry [scenarioTest] (str ''u'') = None"
    by (simp add: getTestByIdFromRegistry_def scenarioTest_def str_eq_iff)
  have dflt: "List.find (\<lambda>v. vid v = defaultVariant scenarioTest) (variants scenarioTest)
      = Some variantA"
    by (simp add: scenario_defs)
  show ?thesis
    using C3_disabled_default [of "[scenarioTest]" "str ''t''" scenarioTest disabledConfig None
        "9/10" assignedB]
      C3_disabled_default [of "[scenarioTest]" "str ''u''" scenarioTest abTestConfig None
        "9/10" assignedB]
      scenario_lookup off stored missing dflt
    by simp
qed

subsection \<open>C4\<close>

text \<open>
  Claim C4, amended. \<^verbatim>\<open>getStoredVariant\<close> consults the primary store first: whenever the
  primary store holds a non-empty value for the test, that value is returned, whatever the
  cookie holds.
\<close>

theorem C4_primary_precedence:
  assumes "primaryEntry e (storageKey tid) = Some p" and "p \<noteq> []"
  shows "getStoredVariant cfg tid e = Inr (jsString p)"
  using assms by (rule getStoredVariant_primary)

theorem C4_primary_precedence_witness:
  "primaryEntry disagreeing (storageKey (str ''t'')) = Some (str ''A'') \<and> str ''A'' \<noteq> []
   \<and> getCookie disagreeing (cookieName abTestConfig)
       = Some (Encoded (ParsedObject [(str ''t'', JStr (str ''B''))]))
   \<and> str ''A'' \<noteq> str ''B''
   \<and> getStoredVariant abTestConfig (str ''t'') disagreeing = Inr (jsString (str ''A''))"
proof -
  have p: "primaryEntry disagreeing (storageKey (str ''t'')) = Some (str ''A'')"
    by (simp add: disagreeing_def primaryEntry_browserWith)
  have ne: "str ''A'' \<noteq> []" "str ''A'' \<noteq> str ''B''" by (simp_all add: str_Nil_iff str_eq_iff)
  have c: "getCookie disagreeing (cookieName abTestConfig)
       = Some (Encoded (ParsedObject [(str ''t'', JStr (str ''B''))]))"
    by (simp add: disagreeing_def getCookie_browserWith)
  show ?thesis
    using C4_primary_precedence [OF p ne(1), of abTestConfig] p ne c by simp
qed

text \<open>
  Both stores hold a value for \<open>t\<close> and the values differ, the primary one being the empty
  string: the value returned is the cookie's.
\<close>

theorem C4_empty_primary_yields_secondary:
  "primaryEntry emptyPrimary (storageKey (str ''t'')) = Some []
   \<and> getCookie emptyPrimary (cookieName abTestConfig)
       = Some (Encoded (ParsedObject [(str ''t'', JStr (str ''B''))]))
   \<and> str ''B'' \<noteq> []
   \<and> getStoredVariant abTestConfig (str ''t'') emptyPrimary = Inr (jsString (str ''B''))"
  by (simp add: getStoredVariant_def emptyPrimary_def browserWith_def getItem_def getCookie_def
      JSON_parse_def getProperty_def str_Nil_iff primaryEntry_def)

subsection \<open>C5\<close>

text \<open>
  Claim C5, amended. For a non-empty user id, two calls of \<^verbatim>\<open>getVariant\<close> for the same test,
  each made with no stored assignment, return the same variant, whatever the random numbers
  and the two environments are, their analytics sinks returning. The variant is the one the
  selection rule selects for the hash of the user id followed by the test id.
\<close>

theorem C5_identified_deterministic:
  assumes "u \<noteq> []"
    and "getStoredVariant cfg tid e1 = Inr null" and "getStoredVariant cfg tid e2 = Inr null"
    and "sinkReturns e1" and "sinkReturns e2"
  shows "(\<exists>v e1' e2'. getVariant reg cfg tid (Some u) r1 e1 = Inr (v, e1')
                   \<and> getVariant reg cfg tid (Some u) r2 e2 = Inr (v, e2'))
       \<and> assignVariantByWeight test (Some u) r1
           = weightedSelection test (hashStringToNumber (u @ testId test))"
proof (rule conjI)
  show "assignVariantByWeight test (Some u) r1
           = weightedSelection test (hashStringToNumber (u @ testId test))"
    using assms(1) by (simp add: assign_eq_spec scalar_identified)
  show "\<exists>v e1' e2'. getVariant reg cfg tid (Some u) r1 e1 = Inr (v, e1')
                   \<and> getVariant reg cfg tid (Some u) r2 e2 = Inr (v, e2')"
  proof (cases "getTestByIdFromRegistry reg tid")
    case None
    then show ?thesis by (simp add: getVariant_not_found)
  next
    case (Some found)
    show ?thesis
    proof (cases "enabled found \<and> globalEnabled cfg")
      case False
      then have "\<not> globalEnabled cfg \<or> \<not> enabled found" by blast
      then show ?thesis by (simp add: getVariant_disabled [OF Some])
    next
      case True
      then have en: "enabled found" and gl: "globalEnabled cfg" by simp_all
      obtain e1' where 1: "getVariant reg cfg tid (Some u) r1 e1 =
          Inr (assignVariantByWeight found (Some u) r1, e1')"
        using getVariant_assigns [OF Some en gl assms(2) _ assms(4), of "Some u" r1] by auto
      obtain e2' where 2: "getVariant reg cfg tid (Some u) r2 e2 =
          Inr (assignVariantByWeight found (Some u) r2, e2')"
        using getVariant_assigns [OF Some en gl assms(3) _ assms(5), of "Some u" r2] by auto
      from 1 2 assign_identified [OF assms(1), of found r1 r2] show ?thesis by simp
    qed
  qed
qed

theorem C5_identified_deterministic_witness:
  "str ''visitor-42'' \<noteq> []
   \<and> getStoredVariant abTestConfig (str ''hero-messaging-test'') server = Inr null
   \<and> getStoredVariant abTestConfig (str ''hero-messaging-test'') browser = Inr null
   \<and> sinkReturns server \<and> sinkReturns browser
   \<and> (\<exists>v e1' e2'.
        getVariant abTestRegistry abTestConfig (str ''hero-messaging-test'')
          (Some (str ''visitor-42'')) (1/4) server = Inr (v, e1')
      \<and> getVariant abTestRegistry abTestConfig (str ''hero-messaging-test'')
          (Some (str ''visitor-42'')) (3/4) browser = Inr (v, e2'))
   \<and> hashStringToNumber (str ''visitor-42'' @ testId heroABTest) = 1978741905 / 2147483648
   \<and> assignVariantByWeight heroABTest (Some (str ''visitor-42'')) (1/4)
       = Some (variants heroABTest ! 1)"
proof -
  have ne: "str ''visitor-42'' \<noteq> []" by (simp add: str_Nil_iff)
  show ?thesis
    using C5_identified_deterministic [OF ne server_unassigned browser_unassigned
        sinkReturns_server sinkReturns_browser,
        where reg = abTestRegistry and ?r1.0 = "1/4" and ?r2.0 = "3/4" and test = heroABTest]
      ne server_unassigned browser_unassigned sinkReturns_server sinkReturns_browser
    by (simp add: visitor_hash hero_visitor)
qed

text \<open>
  The empty string is a user id that \<^verbatim>\<open>userId ? ... : Math.random()\<close> sends to the random
  path: without \<^verbatim>\<open>window\<close> nothing is stored, and two calls differ with the random number.
\<close>

theorem C5_empty_userId_not_deterministic:
  "getStoredVariant abTestConfig (str ''hero-messaging-test'') server = Inr null
   \<and> getVariant abTestRegistry abTestConfig (str ''hero-messaging-test'') (Some []) (1/4) server
       = Inr (Some (variants heroABTest ! 0), server)
   \<and> getVariant abTestRegistry abTestConfig (str ''hero-messaging-test'') (Some []) (3/4) server
       = Inr (Some (variants heroABTest ! 1), server)
   \<and> variants heroABTest ! 0 \<noteq> variants heroABTest ! 1"
proof -
  have st: "storeVariant abTestConfig tid v server = Inr server" for tid v
    by (simp add: storeVariant_def server_def)
  have tr: "trackAnalyticsEvent abTestConfig ty tid v None server = Inr server" for ty tid v
    by (simp add: trackAnalyticsEvent_def server_def)
  have ne: "variants heroABTest ! 0 \<noteq> variants heroABTest ! 1"
    by (simp add: heroABTest_def str_eq_iff)
  show ?thesis
    using ne
    by (simp add: getVariant_def hero_lookup server_unassigned hero_enabled abTestConfig_enabled
        st tr hero_quarter hero_three_quarters)
qed

subsection \<open>C6\<close>

text \<open>
  Claim C6 at the test id \<^verbatim>\<open>'constructor'\<close>. Neither store holds an entry of that name: the
  primary store is empty and the cookie holds the hero test's assignment alone. Yet
  \<^verbatim>\<open>variants[testId]\<close> finds the inherited \<^verbatim>\<open>Object.prototype.constructor\<close>, which is truthy,
  and \<^verbatim>\<open>trackConversion\<close> and \<^verbatim>\<open>trackInteraction\<close> each send an event to \<^verbatim>\<open>window.va\<close>.
\<close>

theorem C6_inherited_name_emits:
  "primaryEntry heroCookie (storageKey (str ''constructor'')) = None
   \<and> getCookie heroCookie (cookieName abTestConfig)
       = Some (Encoded (ParsedObject [(str ''hero-messaging-test'', JStr (str ''original''))]))
   \<and> map_of [(str ''hero-messaging-test'', JStr (str ''original''))] (str ''constructor'') = None
   \<and> tracked heroCookie = []
   \<and> trackConversion abTestConfig (str ''constructor'') None None heroCookie
       = Inr (heroCookie\<lparr>tracked := [(VARIANT_CONVERSION,
            [(str ''test_id'', jsString (str ''constructor'')),
             (str ''variant_id'', Native (str ''constructor'')),
             (str ''conversion_type'', jsString (str ''default''))])]\<rparr>)
   \<and> trackInteraction abTestConfig (str ''constructor'') (str ''click'') None heroCookie
       = Inr (heroCookie\<lparr>tracked := [(VARIANT_INTERACTION,
            [(str ''test_id'', jsString (str ''constructor'')),
             (str ''variant_id'', Native (str ''constructor'')),
             (str ''interaction_type'', jsString (str ''click''))])]\<rparr>)"
proof -
  have p: "primaryEntry heroCookie (storageKey (str ''constructor'')) = None"
    by (simp add: heroCookie_def primaryEntry_browserWith)
  have c: "getCookie heroCookie (cookieName abTestConfig)
       = Some (Encoded (ParsedObject [(str ''hero-messaging-test'', JStr (str ''original''))]))"
    by (simp add: heroCookie_def getCookie_browserWith)
  have m: "map_of [(str ''hero-messaging-test'', JStr (str ''original''))] (str ''constructor'')
      = None"
    by (simp add: str_eq_iff)
  have t: "tracked heroCookie = []" by (simp add: heroCookie_def browserWith_def)
  have an: "analyticsEnabled abTestConfig" by (simp add: abTestConfig_def)
  have w: "window heroCookie = Some \<lparr>localStorage = Storage Map.empty False, va = Sink\<rparr>"
    by (simp add: heroCookie_def browserWith_def)
  have conv: "trackConversion abTestConfig (str ''constructor'') None None heroCookie
       = Inr (heroCookie\<lparr>tracked := [(VARIANT_CONVERSION,
            [(str ''test_id'', jsString (str ''constructor'')),
             (str ''variant_id'', Native (str ''constructor'')),
             (str ''conversion_type'', jsString (str ''default''))])]\<rparr>)"
    by (simp add: trackConversion_def heroCookie_constructor trackAnalyticsEvent_def an w t
        spread_def str_eq_iff)
  have inter: "trackInteraction abTestConfig (str ''constructor'') (str ''click'') None heroCookie
       = Inr (heroCookie\<lparr>tracked := [(VARIANT_INTERACTION,
            [(str ''test_id'', jsString (str ''constructor'')),
             (str ''variant_id'', Native (str ''constructor'')),
             (str ''interaction_type'', jsString (str ''click''))])]\<rparr>)"
    by (simp add: trackInteraction_def heroCookie_constructor trackAnalyticsEvent_def an w t
        spread_def str_eq_iff)
  from p c m t conv inter show ?thesis by simp
qed

subsection \<open>C7\<close>

text \<open>
  Claim C7, amended. For an enabled test with global testing enabled, a stored value that
  is not the id of one of the test's variants is ignored: provided the analytics sink
  returns, \<^verbatim>\<open>getVariant\<close> returns what the weighted selection selects, as for a visitor with
  no assignment. The result is \<^verbatim>\<open>null\<close> only when no variant has a positive weight and no
  variant has the default id.
\<close>

theorem C7_stale_assignment_reselects:
  assumes "getTestByIdFromRegistry reg tid = Some test" and "enabled test" and "globalEnabled cfg"
    and "getStoredVariant cfg tid e = Inr stored" and "truthy stored"
    and "\<not> isValidVariant test stored" and "sinkReturns e"
  shows "(\<exists>e'. getVariant reg cfg tid userId mathRandom e =
            Inr (weightedSelection test (selectionScalar test userId mathRandom), e'))
       \<and> (weightedSelection test (selectionScalar test userId mathRandom) = None \<longleftrightarrow>
            filter (\<lambda>v. weight v > 0) (variants test) = []
            \<and> List.find (\<lambda>v. vid v = defaultVariant test) (variants test) = None)"
proof -
  have "\<exists>e'. getVariant reg cfg tid userId mathRandom e =
          Inr (assignVariantByWeight test userId mathRandom, e')"
    using assms(6) by (intro getVariant_assigns [OF assms(1-4) _ assms(7)]) simp
  then show ?thesis by (simp add: assign_eq_spec weightedSelection_None_iff)
qed

theorem C7_stale_assignment_reselects_witness:
  "getTestByIdFromRegistry abTestRegistry (str ''hero-messaging-test'') = Some heroABTest
   \<and> enabled heroABTest \<and> globalEnabled abTestConfig
   \<and> getStoredVariant abTestConfig (str ''hero-messaging-test'') staleHero
       = Inr (jsString (str ''retired''))
   \<and> truthy (jsString (str ''retired''))
   \<and> \<not> isValidVariant heroABTest (jsString (str ''retired''))
   \<and> sinkReturns staleHero
   \<and> (\<exists>e'. getVariant abTestRegistry abTestConfig (str ''hero-messaging-test'') None (9/10)
         staleHero = Inr (Some (variants heroABTest ! 1), e'))"
proof -
  have sk: "sinkReturns staleHero" by (simp add: staleHero_def sinkReturns_browserWith)
  show ?thesis
    using C7_stale_assignment_reselects [OF hero_lookup hero_enabled abTestConfig_enabled
        staleHero_stored retired_truthy retired_invalid sk, of None "9/10"]
      hero_lookup hero_enabled abTestConfig_enabled staleHero_stored retired_truthy
      retired_invalid sk
    by (simp add: selectionScalar_def hero_nine_tenths)
qed

text \<open>
  The stored id \<^verbatim>\<open>'retired'\<close> is not a variant of the hero test; with the random number 0.9
  the call returns the second variant, not the default one.
\<close>

theorem C7_stale_assignment_not_default:
  "getStoredVariant abTestConfig (str ''hero-messaging-test'') staleHero
     = Inr (jsString (str ''retired''))
   \<and> \<not> isValidVariant heroABTest (jsString (str ''retired''))
   \<and> getDefaultVariant (Some heroABTest) = Some (variants heroABTest ! 0)
   \<and> map_sum id fst
       (getVariant abTestRegistry abTestConfig (str ''hero-messaging-test'') None (9/10) staleHero)
     = Inr (Some (variants heroABTest ! 1))
   \<and> variants heroABTest ! 1 \<noteq> variants heroABTest ! 0"
proof -
  have d: "getDefaultVariant (Some heroABTest) = Some (variants heroABTest ! 0)"
    by (simp add: getVariantById_def heroABTest_def)
  have ne: "variants heroABTest ! 1 \<noteq> variants heroABTest ! 0"
    by (simp add: heroABTest_def str_eq_iff)
  have sk: "sinkReturns staleHero" by (simp add: staleHero_def sinkReturns_browserWith)
  obtain e' where "getVariant abTestRegistry abTestConfig (str ''hero-messaging-test'') None
      (9/10) staleHero = Inr (assignVariantByWeight heroABTest None (9/10), e')"
    using getVariant_assigns [OF hero_lookup hero_enabled abTestConfig_enabled staleHero_stored
        _ sk, of None "9/10"] retired_invalid by auto
  then have "map_sum id fst (getVariant abTestRegistry abTestConfig (str ''hero-messaging-test'')
      None (9/10) staleHero) = Inr (Some (variants heroABTest ! 1))"
    by (simp add: assign_eq_spec selectionScalar_def hero_nine_tenths)
  with d ne staleHero_stored retired_invalid show ?thesis by simp
qed

subsection \<open>C8\<close>

text \<open>
  Claim C8, amended. For every string \<^verbatim>\<open>hashStringToNumber\<close> returns a value in the closed
  interval from 0 to 1, and it returns 1 exactly when the 32-bit hash is \<open>- 2 ^ 31\<close>.
\<close>

theorem C8_hash_closed_unit_interval:
  "0 \<le> hashStringToNumber s \<and> hashStringToNumber s \<le> 1
   \<and> (hashStringToNumber s = 1 \<longleftrightarrow> sint (hashLoop 0 s) = - (2 ^ 31))"
  using hash_range [of s] hash_one_iff [of s] by simp

theorem C8_hash_closed_unit_interval_witness:
  "hashStringToNumber (str ''ab'') = 3105 / 2147483648
   \<and> hashStringToNumber (str ''ab'') \<le> 1
   \<and> sint (hashLoop 0 (str ''ab'')) \<noteq> - (2 ^ 31)"
proof -
  have "hashLoop 0 (str ''ab'') = 3105" by (simp add: str_def push_bit_eq_mult)
  then show ?thesis
    using C8_hash_closed_unit_interval [of "str ''ab''"]
    by (simp add: hashStringToNumber_def)
qed

text \<open>The hash of \<^verbatim>\<open>'polygenelubricants'\<close> is \<open>- 2 ^ 31\<close>, and the scalar is 1.\<close>

theorem C8_hash_reaches_one:
  "\<not> hashStringToNumber (str ''polygenelubricants'') < 1"
  by (simp add: hashStringToNumber_def hash_polygenelubricants)

subsection \<open>C9\<close>

text \<open>
  Claim C9. \<^verbatim>\<open>getStoredVariant\<close> and \<^verbatim>\<open>storeVariant\<close> always return normally. With a cookie
  that is not JSON, \<^verbatim>\<open>getStoredVariant\<close> returns \<^verbatim>\<open>null\<close> when the primary store has no
  non-empty value for the test, and \<^verbatim>\<open>storeVariant\<close>, where \<^verbatim>\<open>localStorage\<close> takes the entry,
  passes to \<^verbatim>\<open>setCookie\<close> the JSON text of the object obtained by assigning the new entry to
  the empty object: the object that holds this entry alone, for every test id but
  \<^verbatim>\<open>'__proto__'\<close>. Without \<^verbatim>\<open>window\<close> a read returns \<^verbatim>\<open>null\<close> and a write changes nothing.
\<close>

theorem C9_storage_never_throws:
  "(\<exists>r. getStoredVariant cfg tid e = Inr r)
   \<and> (\<exists>e'. storeVariant cfg tid v e = Inr e')
   \<and> (getCookie e (cookieName cfg) = Some Garbled
        \<and> (primaryEntry e (storageKey tid) = None \<or> primaryEntry e (storageKey tid) = Some [])
        \<longrightarrow> getStoredVariant cfg tid e = Inr null)
   \<and> (window e = Some w \<and> localStorage w = Storage entries False
        \<and> getCookie e (cookieName cfg) = Some Garbled
        \<longrightarrow> (\<exists>obj. setProperty (ParsedObject []) tid v = Inr obj
               \<and> (tid \<noteq> str ''__proto__'' \<longrightarrow> obj = ParsedObject [(tid, JStr v)])
               \<and> storeVariant cfg tid v e =
                   Inr (setCookie
                     (e\<lparr>window := Some
                         (w\<lparr>localStorage := Storage (entries(storageKey tid \<mapsto> v)) False\<rparr>)\<rparr>)
                     (cookieName cfg) (JSON_stringify obj) (cookieExpireDays cfg))))
   \<and> (window e = None \<longrightarrow> getStoredVariant cfg tid e = Inr null \<and> storeVariant cfg tid v e = Inr e)"
proof (intro conjI impI)
  show "\<exists>r. getStoredVariant cfg tid e = Inr r" by (rule getStoredVariant_returns)
  show "\<exists>e'. storeVariant cfg tid v e = Inr e'" by (rule storeVariant_returns)
next
  assume "getCookie e (cookieName cfg) = Some Garbled
        \<and> (primaryEntry e (storageKey tid) = None \<or> primaryEntry e (storageKey tid) = Some [])"
  then show "getStoredVariant cfg tid e = Inr null"
    by (auto simp: getStoredVariant_def getItem_def JSON_parse_def primaryEntry_def
        split: option.splits storage.splits)
next
  assume a: "window e = Some w \<and> localStorage w = Storage entries False
        \<and> getCookie e (cookieName cfg) = Some Garbled"
  then have c: "getCookie (e\<lparr>window := Some
      (w\<lparr>localStorage := Storage (entries(storageKey tid \<mapsto> v)) False\<rparr>)\<rparr>) (cookieName cfg)
      = Some Garbled"
    by (simp add: getCookie_def)
  show "\<exists>obj. setProperty (ParsedObject []) tid v = Inr obj
               \<and> (tid \<noteq> str ''__proto__'' \<longrightarrow> obj = ParsedObject [(tid, JStr v)])
               \<and> storeVariant cfg tid v e =
                   Inr (setCookie
                     (e\<lparr>window := Some
                         (w\<lparr>localStorage := Storage (entries(storageKey tid \<mapsto> v)) False\<rparr>)\<rparr>)
                     (cookieName cfg) (JSON_stringify obj) (cookieExpireDays cfg))"
    using a c by (simp add: storeVariant_def setItem_def JSON_parse_def setProperty_def)
next
  assume "window e = None"
  then show "getStoredVariant cfg tid e = Inr null" by (simp add: getStoredVariant_def)
next
  assume "window e = None"
  then show "storeVariant cfg tid v e = Inr e" by (simp add: storeVariant_def)
qed

theorem C9_storage_never_throws_witness:
  "getCookie garbledCookie (cookieName abTestConfig) = Some Garbled
   \<and> primaryEntry garbledCookie (storageKey (str ''t'')) = None
   \<and> window garbledCookie = Some \<lparr>localStorage = Storage Map.empty False, va = Sink\<rparr>
   \<and> getStoredVariant abTestConfig (str ''t'') garbledCookie = Inr null
   \<and> str ''t'' \<noteq> str ''__proto__''
   \<and> storeVariant abTestConfig (str ''t'') (str ''B'') garbledCookie = Inr assignedB
   \<and> window server = None
   \<and> getStoredVariant abTestConfig (str ''t'') server = Inr null
   \<and> storeVariant abTestConfig (str ''t'') (str ''B'') server = Inr server"
proof -
  have g: "getCookie garbledCookie (cookieName abTestConfig) = Some Garbled"
    by (simp add: garbledCookie_def getCookie_browserWith)
  have p: "primaryEntry garbledCookie (storageKey (str ''t'')) = None"
    by (simp add: garbledCookie_def primaryEntry_browserWith)
  have w: "window garbledCookie = Some \<lparr>localStorage = Storage Map.empty False, va = Sink\<rparr>"
    by (simp add: garbledCookie_def browserWith_def)
  have l: "localStorage \<lparr>localStorage = Storage Map.empty False, va = Sink\<rparr>
      = Storage Map.empty False" by simp
  have n: "str ''t'' \<noteq> str ''__proto__''" by (simp add: str_eq_iff)
  have s: "window server = None" by (simp add: server_def)
  have written: "setCookie
      (garbledCookie\<lparr>window := Some (\<lparr>localStorage = Storage Map.empty False, va = Sink\<rparr>
          \<lparr>localStorage := Storage [storageKey (str ''t'') \<mapsto> str ''B''] False\<rparr>)\<rparr>)
      (cookieName abTestConfig)
      (JSON_stringify (ParsedObject [(str ''t'', JStr (str ''B''))]))
      (cookieExpireDays abTestConfig) = assignedB"
    by (simp add: setCookie_def keepCookie_def garbledCookie_def browserWith_def assignedB_def
        JSON_stringify_def abTestConfig_def str_semicolon)
  show ?thesis
    using C9_storage_never_throws [where cfg = abTestConfig and tid = "str ''t''"
        and e = garbledCookie and v = "str ''B''" and entries = Map.empty
        and w = "\<lparr>localStorage = Storage Map.empty False, va = Sink\<rparr>"]
      C9_storage_never_throws [where cfg = abTestConfig and tid = "str ''t''"
        and e = server and v = "str ''B''"] g p w l n s written
    by auto
qed

subsection \<open>C10\<close>

text \<open>
  Claim C10. Every test of the shipped registry is well formed: its \<^verbatim>\<open>defaultVariant\<close> is
  the id of exactly one variant, its variant ids are distinct, its weights lie between 0 and
  100 and sum to 100. Hence, for a random number in \<open>[0, 1)\<close> or a hash scalar, some variant
  has a positive weight, the loop of \<^verbatim>\<open>assignVariantByWeight\<close> returns from inside, and the
  default variant exists.
\<close>

theorem C10_registry_well_formed:
  "list_all wellFormedTest abTestRegistry
   \<and> (\<forall>test \<in> set abTestRegistry. \<forall>userId mathRandom.
        0 \<le> mathRandom \<and> mathRandom < 1 \<longrightarrow>
          filter (\<lambda>v. weight v > 0) (variants test) \<noteq> []
        \<and> weightLoop (fl64 (selectionScalar test userId mathRandom * 100)) 0
            (filter (\<lambda>v. weight v > 0) (variants test)) \<noteq> None
        \<and> getDefaultVariant (Some test) \<noteq> None)"
proof (intro conjI ballI allI impI)
  show "list_all wellFormedTest abTestRegistry" by (rule registry_wellFormed)
next
  fix test :: "section_config ABTest" and userId :: "jsstring option" and mathRandom :: real
  assume t: "test \<in> set abTestRegistry" and r: "0 \<le> mathRandom \<and> mathRandom < 1"
  from r have "fl64 (selectionScalar test userId mathRandom * 100) \<le> 100"
    by (simp add: scaled_le_100)
  from registry_no_fallback [OF t this]
  show "filter (\<lambda>v. weight v > 0) (variants test) \<noteq> []"
    and "weightLoop (fl64 (selectionScalar test userId mathRandom * 100)) 0
            (filter (\<lambda>v. weight v > 0) (variants test)) \<noteq> None"
    and "getDefaultVariant (Some test) \<noteq> None" by simp_all
qed

theorem C10_registry_well_formed_witness:
  "ctaABTest \<in> set abTestRegistry \<and> (0::real) \<le> 999/1000 \<and> (999/1000 :: real) < 1
   \<and> wellFormedTest ctaABTest
   \<and> weightLoop (fl64 (selectionScalar ctaABTest None (999/1000) * 100)) 0
        (filter (\<lambda>v. weight v > 0) (variants ctaABTest)) = Some (variants ctaABTest ! 2)
   \<and> getDefaultVariant (Some ctaABTest) = Some (variants ctaABTest ! 0)"
proof -
  have m: "ctaABTest \<in> set abTestRegistry" by (simp add: abTestRegistry_def)
  have d: "getDefaultVariant (Some ctaABTest) = Some (variants ctaABTest ! 0)"
    by (simp add: getVariantById_def ctaABTest_def)
  show ?thesis
    using C10_registry_well_formed m cta_999 d by (simp add: list_all_iff)
qed

end
